theory Spec2Isabelle
  imports Complex_Main
begin

section \<open>The protocol-buffer text-format parser of pbtxtjs\<close>

text \<open>
  The repository holds two revisions of the parser: the TypeScript source
  \<^verbatim>\<open>src/src/parser.ts\<close> and a compiled module \<^verbatim>\<open>src/unnamed/part_000\<close> that was
  built from a later state of it. The tokenizer core (constructor, \<^verbatim>\<open>_popLine\<close>,
  \<^verbatim>\<open>_skipWhitespace\<close>, \<^verbatim>\<open>nextToken\<close>, \<^verbatim>\<open>tryConsume\<close>, \<^verbatim>\<open>consume\<close>,
  \<^verbatim>\<open>consumeIdentifier\<close>, \<^verbatim>\<open>consumeIdentifierOrNumber\<close>, \<^verbatim>\<open>_consumeByteString\<close>,
  \<^verbatim>\<open>consumeString\<close>) is the same text in both. Where the two differ, the
  definition that carries the source's name embeds \<^verbatim>\<open>parser.ts\<close> and the
  definition with the suffix \<open>_p0\<close> embeds \<^verbatim>\<open>part_000\<close>. A third revision, the
  compiled module in \<^verbatim>\<open>src/dist/parser.d.ts\<close>, is not embedded: its
  \<^verbatim>\<open>consumeFloat\<close>, \<^verbatim>\<open>parseScalar\<close>, \<^verbatim>\<open>mergeScalarField\<close> and \<^verbatim>\<open>mergeMapField\<close> are
  those of \<^verbatim>\<open>parser.ts\<close>.

  JavaScript strings are sequences of UTF-16 code units. Input text is modelled
  as \<^typ>\<open>string\<close>, so the model covers input whose code units are below 256; the
  strings that unescaping produces are lists of code units (as \<^typ>\<open>int\<close>), since
  an escape may denote any code unit.
\<close>

subsection \<open>Errors\<close>

text \<open>
  \<^verbatim>\<open>ParseError(message, line, column)\<close>; \<open>None\<close> stands for an argument that
  the call site leaves out. \<open>JsError\<close> is any other JavaScript exception that
  escapes the parser. The last two are not behaviours of the program:
  \<open>Unmodelled\<close> marks an input on which the program goes on outside this
  model, \<open>OutOfFuel\<close> is the answer of a depth-bounded definition whose bound
  was too small.
\<close>

datatype error =
    ParseError string "int option" "int option"
  | JsError string
  | Unmodelled
  | OutOfFuel

subsection \<open>Character classes of the regular expressions\<close>

definition is_digit :: "char \<Rightarrow> bool" where
  "is_digit c = (c \<in> set ''0123456789'')"

definition is_alpha_us :: "char \<Rightarrow> bool" where
  "is_alpha_us c = (c \<in> set ''abcdefghijklmnopqrstuvwxyzABCDEFGHIJKLMNOPQRSTUVWXYZ_'')"

text \<open>\<^verbatim>\<open>\w\<close>, that is \<^verbatim>\<open>[A-Za-z0-9_]\<close>.\<close>

definition is_word :: "char \<Rightarrow> bool" where
  "is_word c = (is_alpha_us c \<or> is_digit c)"

text \<open>\<^verbatim>\<open>\s\<close> restricted to code units below 256: TAB, LF, VT, FF, CR, SP, NBSP.\<close>

definition is_space :: "char \<Rightarrow> bool" where
  "is_space c = (c \<in> set [CHR 0x09, CHR 0x0A, CHR 0x0B, CHR 0x0C, CHR 0x0D, CHR 0x20, CHR 0xA0])"

text \<open>The dot of a regular expression matches everything but a line terminator.\<close>

definition is_dot :: "char \<Rightarrow> bool" where
  "is_dot c = (c \<noteq> CHR 0x0A \<and> c \<noteq> CHR 0x0D)"

text \<open>\<^verbatim>\<open>[0-9a-zA-Z_+-]\<close> and \<^verbatim>\<open>[0-9a-zA-Z_.+-]\<close>.\<close>

definition is_ident_tail :: "char \<Rightarrow> bool" where
  "is_ident_tail c = (is_word c \<or> c = CHR ''+'' \<or> c = CHR ''-'')"

definition is_number_tail :: "char \<Rightarrow> bool" where
  "is_number_tail c = (is_ident_tail c \<or> c = CHR ''.'')"

subsection \<open>The two regular expressions of the tokenizer\<close>

text \<open>
  \<^verbatim>\<open>_WHITESPACE_OR_COMMENT = /(?:\s|#.*)+/g\<close>, executed from \<^verbatim>\<open>lastIndex = 0\<close>; the
  caller only uses a match that starts at index 0. \<open>ws_len s\<close> is the length of
  the match at index 0, and 0 when there is none there (a match is never empty).
\<close>

function ws_len :: "string \<Rightarrow> nat" where
  "ws_len [] = 0"
| "ws_len (c # cs) =
     (if is_space c then 1 + ws_len cs
      else if c = CHR ''#'' then
        (let n = length (takeWhile is_dot cs) in 1 + n + ws_len (drop n cs))
      else 0)"
  by pat_completeness auto
termination
  by (relation "measure length") auto

text \<open>
  The body of a quoted literal, \<^verbatim>\<open>([^"\n\\]|\\.)*\<close> for the quote \<open>q\<close>: the number
  of characters the greedy star takes. Each character admits at most one of
  the two alternatives, so the star has no other way to split its input.
\<close>

fun str_body :: "char \<Rightarrow> string \<Rightarrow> nat" where
  "str_body q [] = 0"
| "str_body q [c] = (if c \<noteq> q \<and> c \<noteq> CHR 0x0A \<and> c \<noteq> CHR 0x5C then 1 else 0)"
| "str_body q (c # d # cs) =
     (if c = CHR 0x5C then (if is_dot d then 2 + str_body q cs else 0)
      else if c \<noteq> q \<and> c \<noteq> CHR 0x0A then 1 + str_body q (d # cs)
      else 0)"

text \<open>
  The end of a quoted literal, \<^verbatim>\<open>("|\\?$)\<close>, tried on what the star left:
  the closing quote, or an optional backslash at the end of the line. When it
  fails after the greedy star it fails after every shorter run of the star too:
  a shorter run stops in front of a character that the star accepts, which is
  neither the quote nor the end of the line, and a backslash there is followed
  by a character.
\<close>

definition str_end :: "char \<Rightarrow> string \<Rightarrow> nat option" where
  "str_end q r =
     (if r \<noteq> [] \<and> hd r = q then Some 1
      else if r = [] then Some 0
      else if r = [CHR 0x5C] then Some 1
      else None)"

text \<open>
  \<^verbatim>\<open>_TOKEN\<close>: identifier, number, double-quoted, single-quoted, in this order.
  \<open>token_match s\<close> is the text of the match at index 0, if there is one.
\<close>

definition quoted_match :: "char \<Rightarrow> string \<Rightarrow> string option" where
  "quoted_match q s =
     (case s of
        [] \<Rightarrow> None
      | c # cs \<Rightarrow>
          if c = q then
            (let n = str_body q cs in
             case str_end q (drop n cs) of
               Some k \<Rightarrow> Some (take (1 + n + k) s)
             | None \<Rightarrow> None)
          else None)"

definition token_match :: "string \<Rightarrow> string option" where
  "token_match s =
     (case s of
        [] \<Rightarrow> None
      | c # cs \<Rightarrow>
          if is_alpha_us c then Some (c # takeWhile is_ident_tail cs)
          else if is_digit c \<or> c = CHR ''+'' \<or> c = CHR ''-'' then
            Some (c # takeWhile is_number_tail cs)
          else if c = CHR ''.'' \<and> cs \<noteq> [] \<and> is_digit (hd cs) then
            Some (c # hd cs # takeWhile is_number_tail (tl cs))
          else if c = CHR 0x22 then quoted_match (CHR 0x22) s
          else if c = CHR 0x27 then quoted_match (CHR 0x27) s
          else None)"

subsection \<open>Tokenizer state\<close>

text \<open>
  The fields of \<^verbatim>\<open>class Tokenizer\<close>; the private ones, written with a leading
  underscore in the source, carry the prefix \<open>p_\<close>. \<^verbatim>\<open>_line\<close> starts at -1.
\<close>

record tokenizer =
  p_lines :: "string list"
  p_line :: int
  p_column :: nat
  token :: string
  p_current_line :: string
  p_more_lines :: bool
  p_previous_line :: int
  p_previous_column :: nat

definition atEnd :: "tokenizer \<Rightarrow> bool" where
  "atEnd t = (token t = [])"

function popLine :: "tokenizer \<Rightarrow> tokenizer" where
  "popLine t =
     (if length (p_current_line t) = 0 \<or> p_column t \<ge> length (p_current_line t) then
        (case p_lines t of
           [] \<Rightarrow> t\<lparr>p_current_line := [], p_more_lines := False\<rparr>
         | l # ls \<Rightarrow>
             popLine (t\<lparr>p_current_line := l, p_lines := ls, p_line := p_line t + 1, p_column := 0\<rparr>))
      else t)"
  by pat_completeness auto
termination
  by (relation "measure (\<lambda>t. length (p_lines t))") auto

declare popLine.simps [simp del]

lemma popLine_stop:
  "p_current_line t \<noteq> [] \<Longrightarrow> p_column t < length (p_current_line t) \<Longrightarrow> popLine t = t"
  by (subst popLine.simps) simp

lemma popLine_empty:
  "p_current_line t = [] \<or> length (p_current_line t) \<le> p_column t \<Longrightarrow> p_lines t = [] \<Longrightarrow>
   popLine t = t\<lparr>p_current_line := [], p_more_lines := False\<rparr>"
  by (subst popLine.simps) auto

lemma popLine_step:
  "p_current_line t = [] \<or> length (p_current_line t) \<le> p_column t \<Longrightarrow> p_lines t = l # ls \<Longrightarrow>
   popLine t = popLine (t\<lparr>p_current_line := l, p_lines := ls, p_line := p_line t + 1, p_column := 0\<rparr>)"
  by (subst popLine.simps) auto

text \<open>
  What is left to read, the measure of the scanning loop: a character for each
  end of line, and the rest of the current line.
\<close>

definition remaining :: "tokenizer \<Rightarrow> nat" where
  "remaining t =
     (\<Sum>l\<leftarrow>p_lines t. Suc (length l)) + (length (p_current_line t) - p_column t)"

lemma popLine_remaining: "remaining (popLine t) \<le> remaining t"
proof (induction t rule: popLine.induct)
  case (1 t)
  show ?case
  proof (cases "p_current_line t = [] \<or> length (p_current_line t) \<le> p_column t")
    case True
    show ?thesis
    proof (cases "p_lines t")
      case Nil
      with True show ?thesis by (auto simp: popLine_empty remaining_def)
    next
      case (Cons l ls)
      with True 1 have "remaining (popLine t)
          \<le> remaining (t\<lparr>p_current_line := l, p_lines := ls, p_line := p_line t + 1, p_column := 0\<rparr>)"
        by (simp add: popLine_step)
      also have "\<dots> \<le> remaining t" using True Cons by (auto simp: remaining_def)
      finally show ?thesis .
    qed
  next
    case False
    then show ?thesis by (simp add: popLine_stop)
  qed
qed

lemma popLine_more:
  "p_more_lines (popLine t) \<Longrightarrow> p_column (popLine t) < length (p_current_line (popLine t))"
proof (induction t rule: popLine.induct)
  case (1 t)
  show ?case
  proof (cases "p_current_line t = [] \<or> length (p_current_line t) \<le> p_column t")
    case True
    show ?thesis
    proof (cases "p_lines t")
      case Nil
      with True 1(2) show ?thesis by (simp add: popLine_empty)
    next
      case (Cons l ls)
      with True 1 show ?thesis by (simp add: popLine_step)
    qed
  next
    case False
    then show ?thesis by (simp add: popLine_stop)
  qed
qed

text \<open>
  \<^verbatim>\<open>_skipWhitespace\<close>: the loop leaves when the input is exhausted or when the
  expression does not match at the cursor.
\<close>

function skipWhitespace :: "tokenizer \<Rightarrow> tokenizer" where
  "skipWhitespace t =
     (if \<not> p_more_lines (popLine t) then popLine t
      else if 0 < ws_len (drop (p_column (popLine t)) (p_current_line (popLine t))) then
        skipWhitespace ((popLine t)\<lparr>p_column := p_column (popLine t)
           + ws_len (drop (p_column (popLine t)) (p_current_line (popLine t)))\<rparr>)
      else popLine t)"
  by pat_completeness auto
termination
proof (relation "measure remaining")
  show "wf (measure remaining)" by simp
next
  fix t
  assume m: "\<not> \<not> p_more_lines (popLine t)"
    and w: "0 < ws_len (drop (p_column (popLine t)) (p_current_line (popLine t)))"
  from m have "p_column (popLine t) < length (p_current_line (popLine t))"
    by (simp add: popLine_more)
  with w have "remaining ((popLine t)\<lparr>p_column := p_column (popLine t)
           + ws_len (drop (p_column (popLine t)) (p_current_line (popLine t)))\<rparr>) < remaining (popLine t)"
    by (simp add: remaining_def)
  with popLine_remaining [of t]
  show "((popLine t)\<lparr>p_column := p_column (popLine t)
           + ws_len (drop (p_column (popLine t)) (p_current_line (popLine t)))\<rparr>, t) \<in> measure remaining"
    by simp
qed

declare skipWhitespace.simps [simp del]

definition nextToken :: "tokenizer \<Rightarrow> tokenizer" where
  "nextToken t =
     (let t1 = skipWhitespace (t\<lparr>p_previous_line := p_line t, p_previous_column := p_column t,
                                 p_column := p_column t + length (token t)\<rparr>)
      in if \<not> p_more_lines t1 then t1\<lparr>token := []\<rparr>
         else
           (let remaining_line = drop (p_column t1) (p_current_line t1)
            in if remaining_line = [] then t1\<lparr>token := []\<rparr>
               else (case token_match remaining_line of
                       Some m \<Rightarrow> t1\<lparr>token := m\<rparr>
                     | None \<Rightarrow> t1\<lparr>token := [hd remaining_line]\<rparr>)))"

text \<open>The constructor: \<^verbatim>\<open>new Tokenizer(lines)\<close>.\<close>

definition Tokenizer :: "string list \<Rightarrow> tokenizer" where
  "Tokenizer ls =
     nextToken (popLine \<lparr>p_lines = ls, p_line = - 1, p_column = 0, token = [],
                         p_current_line = [], p_more_lines = True,
                         p_previous_line = 0, p_previous_column = 0\<rparr>)"

text \<open>
  The position of the cursor, which after \<^verbatim>\<open>nextToken\<close> is where the current
  token starts, and the lexicographic order on positions.
\<close>

definition pos :: "tokenizer \<Rightarrow> int \<times> nat" where
  "pos t = (p_line t, p_column t)"

definition pos_le :: "int \<times> nat \<Rightarrow> int \<times> nat \<Rightarrow> bool" where
  "pos_le p q = (fst p < fst q \<or> (fst p = fst q \<and> snd p \<le> snd q))"

subsection \<open>JavaScript numbers and the built-in conversions\<close>

text \<open>
  A Number is NaN, an infinity, or finite. \<open>Fin r\<close> stands for the Number that
  the literal of the exact value \<open>r\<close> denotes: the rounding to a 64-bit float is
  not modelled, and the two zeros are one. A BigInt is an \<^typ>\<open>int\<close>.
\<close>

datatype jsnum = NaN | PosInfinity | NegInfinity | Fin rat

definition isNaN :: "jsnum \<Rightarrow> bool" where
  "isNaN x = (x = NaN)"

text \<open>The value of a digit or letter as a digit, and the digits below a radix.\<close>

definition digit_of :: "char \<Rightarrow> int option" where
  "digit_of c =
     (let n = (of_char c :: int)
      in if 48 \<le> n \<and> n \<le> 57 then Some (n - 48)
         else if 97 \<le> n \<and> n \<le> 122 then Some (n - 87)
         else if 65 \<le> n \<and> n \<le> 90 then Some (n - 55)
         else None)"

definition is_radix_digit :: "int \<Rightarrow> char \<Rightarrow> bool" where
  "is_radix_digit R c = (case digit_of c of Some d \<Rightarrow> d < R | None \<Rightarrow> False)"

definition digits_val :: "int \<Rightarrow> string \<Rightarrow> int" where
  "digits_val R ds = foldl (\<lambda>a c. a * R + the (digit_of c)) 0 ds"

text \<open>
  The conversions skip white space, which for code units below 256 is the
  class \<^verbatim>\<open>\s\<close>, and read an optional sign.
\<close>

definition trim_start :: "string \<Rightarrow> string" where
  "trim_start s = dropWhile is_space s"

definition trim :: "string \<Rightarrow> string" where
  "trim s = rev (dropWhile is_space (rev (dropWhile is_space s)))"

definition strip_sign :: "string \<Rightarrow> bool \<times> string" where
  "strip_sign s =
     (case s of
        [] \<Rightarrow> (False, [])
      | c # cs \<Rightarrow> if c = CHR ''-'' then (True, cs) else if c = CHR ''+'' then (False, cs) else (False, s))"

definition signed :: "bool \<Rightarrow> rat \<Rightarrow> rat" where
  "signed neg r = (if neg then - r else r)"

text \<open>
  \<^verbatim>\<open>parseInt(s, R)\<close> for the radixes the program passes (8, 10, 16): leading
  white space, a sign, for radix 16 a prefix \<^verbatim>\<open>0x\<close> or \<^verbatim>\<open>0X\<close>, then the longest
  run of digits of the radix; NaN when that run is empty.
\<close>

definition parseInt :: "string \<Rightarrow> int \<Rightarrow> jsnum" where
  "parseInt s R =
     (let (neg, s1) = strip_sign (trim_start s);
          s2 = (if R = 16 \<and> (take 2 s1 = ''0x'' \<or> take 2 s1 = ''0X'') then drop 2 s1 else s1);
          ds = takeWhile (is_radix_digit R) s2
      in if ds = [] then NaN else Fin (signed neg (of_int (digits_val R ds))))"

text \<open>
  The longest prefix that is a decimal literal (\<^verbatim>\<open>StrDecimalLiteral\<close>): a sign,
  then \<^verbatim>\<open>Infinity\<close> or digits with an optional fraction and an optional
  exponent, which counts only when it has a digit. The result is the value and
  the rest of the string.
\<close>

definition scale10 :: "int \<Rightarrow> int \<Rightarrow> rat" where
  "scale10 m e = (if 0 \<le> e then of_int m * 10 ^ nat e else of_int m / 10 ^ nat (- e))"

definition exponent_part :: "string \<Rightarrow> (int \<times> string) option" where
  "exponent_part s =
     (case s of
        [] \<Rightarrow> None
      | c # cs \<Rightarrow>
          if c = CHR ''e'' \<or> c = CHR ''E'' then
            (let (neg, r) = strip_sign cs; ds = takeWhile is_digit r
             in if ds = [] then None
                else Some ((if neg then - digits_val 10 ds else digits_val 10 ds),
                           drop (length ds) r))
          else None)"

definition decimal_prefix :: "string \<Rightarrow> (jsnum \<times> string) option" where
  "decimal_prefix s =
     (let (neg, s1) = strip_sign s
      in if take 8 s1 = ''Infinity'' then Some (if neg then NegInfinity else PosInfinity, drop 8 s1)
         else
           (let ip = takeWhile is_digit s1;
                r1 = drop (length ip) s1;
                fp = (if r1 \<noteq> [] \<and> hd r1 = CHR ''.'' then takeWhile is_digit (tl r1) else []);
                r2 = (if r1 \<noteq> [] \<and> hd r1 = CHR ''.'' \<and> (ip \<noteq> [] \<or> fp \<noteq> [])
                      then drop (length fp) (tl r1) else r1)
            in if ip = [] \<and> fp = [] then None
               else (case exponent_part r2 of
                       Some (e, r3) \<Rightarrow>
                         Some (Fin (signed neg (scale10 (digits_val 10 (ip @ fp)) (e - int (length fp)))), r3)
                     | None \<Rightarrow>
                         Some (Fin (signed neg (scale10 (digits_val 10 (ip @ fp)) (- int (length fp)))), r2))))"

text \<open>\<^verbatim>\<open>parseFloat\<close> reads such a prefix after leading white space.\<close>

definition parseFloat :: "string \<Rightarrow> jsnum" where
  "parseFloat s = (case decimal_prefix (trim_start s) of Some (v, r) \<Rightarrow> v | None \<Rightarrow> NaN)"

text \<open>
  \<^verbatim>\<open>Number(s)\<close> and \<^verbatim>\<open>BigInt(s)\<close> take the whole string without the white space
  around it: the empty string is 0, a literal with the prefix \<^verbatim>\<open>0x\<close>, \<^verbatim>\<open>0o\<close> or
  \<^verbatim>\<open>0b\<close> has no sign, \<^verbatim>\<open>Number\<close> takes a decimal literal and \<^verbatim>\<open>BigInt\<close> a
  signed run of decimal digits. Anything else is NaN for \<^verbatim>\<open>Number\<close> and a
  SyntaxError for \<^verbatim>\<open>BigInt\<close>. \<^verbatim>\<open>BigInt(x)\<close> of a Number is a RangeError unless
  the Number is an integer.
\<close>

definition nondecimal_literal :: "string \<Rightarrow> int option" where
  "nondecimal_literal s =
     (let p = take 2 s; ds = drop 2 s;
          R = (if p = ''0x'' \<or> p = ''0X'' then 16
               else if p = ''0o'' \<or> p = ''0O'' then 8
               else if p = ''0b'' \<or> p = ''0B'' then 2 else (0::int))
      in if R \<noteq> 0 \<and> ds \<noteq> [] \<and> list_all (is_radix_digit R) ds
         then Some (digits_val R ds) else None)"

definition Number :: "string \<Rightarrow> jsnum" where
  "Number s =
     (let s1 = trim s
      in if s1 = [] then Fin 0
         else (case nondecimal_literal s1 of
                 Some n \<Rightarrow> Fin (of_int n)
               | None \<Rightarrow>
                   (case decimal_prefix s1 of
                      Some (v, r) \<Rightarrow> if r = [] then v else NaN
                    | None \<Rightarrow> NaN)))"

definition BigInt :: "string \<Rightarrow> error + int" where
  "BigInt s =
     (let s1 = trim s
      in if s1 = [] then Inr 0
         else (case nondecimal_literal s1 of
                 Some n \<Rightarrow> Inr n
               | None \<Rightarrow>
                   (let (neg, ds) = strip_sign s1
                    in if ds \<noteq> [] \<and> list_all is_digit ds
                       then Inr (if neg then - digits_val 10 ds else digits_val 10 ds)
                       else Inl (JsError ''SyntaxError''))))"

definition BigInt_of_number :: "jsnum \<Rightarrow> error + int" where
  "BigInt_of_number x =
     (case x of
        Fin r \<Rightarrow> if r = of_int \<lfloor>r\<rfloor> then Inr \<lfloor>r\<rfloor> else Inl (JsError ''RangeError'')
      | _ \<Rightarrow> Inl (JsError ''RangeError''))"

subsection \<open>Errors at a position\<close>

type_synonym 'a result = "(error \<times> tokenizer) + ('a \<times> tokenizer)"

definition parseError :: "tokenizer \<Rightarrow> string \<Rightarrow> error" where
  "parseError t message = ParseError message (Some (p_line t + 1)) (Some (int (p_column t) + 1))"

definition parseErrorPreviousToken :: "tokenizer \<Rightarrow> string \<Rightarrow> error" where
  "parseErrorPreviousToken t message =
     ParseError message (Some (p_previous_line t + 1)) (Some (int (p_previous_column t) + 1))"

definition tryConsume :: "string \<Rightarrow> tokenizer \<Rightarrow> bool \<times> tokenizer" where
  "tryConsume tok t = (if token t = tok then (True, nextToken t) else (False, t))"

definition consume :: "string \<Rightarrow> tokenizer \<Rightarrow> unit result" where
  \<open>consume tok t =
     (case tryConsume tok t of
        (True, t') \<Rightarrow> Inr ((), t')
      | (False, t') \<Rightarrow> Inl (parseError t' (''Expected "'' @ tok @ ''".''), t'))\<close>

definition lookingAt :: "string \<Rightarrow> tokenizer \<Rightarrow> bool" where
  "lookingAt tok t = (token t = tok)"

definition consumeIdentifier :: "tokenizer \<Rightarrow> string result" where
  "consumeIdentifier t =
     (let result = token t
      in if \<not> list_ex is_alpha_us result then Inl (parseError t ''Expected identifier.'', t)
         else Inr (result, nextToken t))"

definition consumeIdentifierOrNumber :: "tokenizer \<Rightarrow> string result" where
  "consumeIdentifierOrNumber t =
     (let result = token t
      in if \<not> (result \<noteq> [] \<and> list_all is_word result)
         then Inl (parseError t (''Expected identifier or number, got '' @ result @ ''.''), t)
         else Inr (result, nextToken t))"

subsection \<open>Integer tokens\<close>

text \<open>
  A JavaScript value the tokenizer hands to the parser: a Number, a BigInt, a
  boolean, a string, and an octet array.
\<close>

datatype scalar =
    SNumber jsnum
  | SBigInt int
  | SBool bool
  | SString "int list"
  | SBytes "int list"
  | SUndefined

text \<open>\<^verbatim>\<open>parser.ts\<close>: \<^verbatim>\<open>parseInt(int_str, 10)\<close> and \<^verbatim>\<open>BigInt(int_str)\<close>, no range check.\<close>

definition consumeInt32 :: "tokenizer \<Rightarrow> jsnum result" where
  \<open>consumeInt32 t =
     (let int_str = token t; t' = nextToken t; v = parseInt int_str 10
      in if isNaN v then Inl (parseErrorPreviousToken t' (''Couldn't parse integer: '' @ int_str), t')
         else Inr (v, t'))\<close>

definition consumeUint32 :: "tokenizer \<Rightarrow> jsnum result" where
  \<open>consumeUint32 t =
     (let int_str = token t; t' = nextToken t; v = parseInt int_str 10
      in if isNaN v then Inl (parseErrorPreviousToken t' (''Couldn't parse integer: '' @ int_str), t')
         else Inr (v, t'))\<close>

definition consumeInt64 :: "tokenizer \<Rightarrow> int result" where
  \<open>consumeInt64 t =
     (let int_str = token t; t' = nextToken t
      in case BigInt int_str of
           Inr v \<Rightarrow> Inr (v, t')
         | Inl e \<Rightarrow> Inl (parseErrorPreviousToken t' (''Couldn't parse integer: '' @ int_str), t'))\<close>

definition consumeUint64 :: "tokenizer \<Rightarrow> int result" where
  \<open>consumeUint64 t =
     (let int_str = token t; t' = nextToken t
      in case BigInt int_str of
           Inr v \<Rightarrow> Inr (v, t')
         | Inl e \<Rightarrow> Inl (parseErrorPreviousToken t' (''Couldn't parse integer: '' @ int_str), t'))\<close>

text \<open>
  \<^verbatim>\<open>part_000\<close>: \<^verbatim>\<open>Tokenizer.parseInteger(text, constructor)\<close>, the constructor being
  \<^verbatim>\<open>Number\<close> or \<^verbatim>\<open>BigInt\<close>. Every exception inside is turned into the one error.
\<close>

datatype ctor = CNumber | CBigInt

definition construct :: "ctor \<Rightarrow> string \<Rightarrow> error + scalar" where
  "construct k text =
     (case k of
        CNumber \<Rightarrow> Inr (SNumber (Number text))
      | CBigInt \<Rightarrow> (case BigInt text of Inr v \<Rightarrow> Inr (SBigInt v) | Inl e \<Rightarrow> Inl e))"

definition construct_num :: "ctor \<Rightarrow> jsnum \<Rightarrow> error + scalar" where
  "construct_num k x =
     (case k of
        CNumber \<Rightarrow> Inr (SNumber x)
      | CBigInt \<Rightarrow> (case BigInt_of_number x of Inr v \<Rightarrow> Inr (SBigInt v) | Inl e \<Rightarrow> Inl e))"

text \<open>\<^verbatim>\<open>/^-?0[0-7]+$/\<close>\<close>

definition is_c_octal :: "string \<Rightarrow> bool" where
  "is_c_octal text =
     (let r = (if text \<noteq> [] \<and> hd text = CHR ''-'' then tl text else text)
      in r \<noteq> [] \<and> hd r = CHR ''0'' \<and> tl r \<noteq> [] \<and> list_all (is_radix_digit 8) (tl r))"

definition parseInteger_p0 :: "string \<Rightarrow> ctor \<Rightarrow> error + scalar" where
  \<open>parseInteger_p0 text k =
     (let result =
            (if take 2 text = ''0x'' \<or> take 2 text = ''0X'' then construct k text
             else if take 3 text = ''-0x'' \<or> take 3 text = ''-0X'' then construct_num k (parseInt text 16)
             else if is_c_octal text then construct_num k (parseInt text 8)
             else construct k text)
      in case result of
           Inr (SNumber x) \<Rightarrow>
             if isNaN x then Inl (JsError (''Couldn't parse integer: '' @ text)) else Inr (SNumber x)
         | Inr v \<Rightarrow> Inr v
         | Inl e \<Rightarrow> Inl (JsError (''Couldn't parse integer: '' @ text)))\<close>

definition consumeInteger_p0 :: "ctor \<Rightarrow> tokenizer \<Rightarrow> scalar result" where
  \<open>consumeInteger_p0 k t =
     (let int_str = token t; t' = nextToken t
      in case parseInteger_p0 int_str k of
           Inr v \<Rightarrow> Inr (v, t')
         | Inl e \<Rightarrow> Inl (parseErrorPreviousToken t' (''Couldn't parse integer: '' @ int_str), t'))\<close>

definition consumeInt32_p0 :: "tokenizer \<Rightarrow> scalar result" where
  "consumeInt32_p0 = consumeInteger_p0 CNumber"

definition consumeUint32_p0 :: "tokenizer \<Rightarrow> scalar result" where
  "consumeUint32_p0 = consumeInteger_p0 CNumber"

definition consumeInt64_p0 :: "tokenizer \<Rightarrow> scalar result" where
  "consumeInt64_p0 = consumeInteger_p0 CBigInt"

definition consumeUint64_p0 :: "tokenizer \<Rightarrow> scalar result" where
  "consumeUint64_p0 = consumeInteger_p0 CBigInt"

subsection \<open>Float and bool tokens\<close>

definition consumeFloat :: "tokenizer \<Rightarrow> jsnum result" where
  "consumeFloat t =
     (let float_str = token t; t' = nextToken t
      in if float_str \<noteq> [] \<and> last float_str = CHR ''f''
         then Inr (parseFloat (butlast float_str), t')
         else Inr (parseFloat float_str, t'))"

definition toLowerCase :: "string \<Rightarrow> string" where
  "toLowerCase s =
     map (\<lambda>c. let n = (of_char c :: nat)
              in if (65 \<le> n \<and> n \<le> 90) \<or> (192 \<le> n \<and> n \<le> 222 \<and> n \<noteq> 215)
                 then char_of (n + 32) else c) s"

definition consumeFloat_p0 :: "tokenizer \<Rightarrow> jsnum result" where
  "consumeFloat_p0 t =
     (let float_str = token t; t' = nextToken t; lowerToken = toLowerCase float_str
      in if lowerToken = ''inf'' \<or> lowerToken = ''infinity'' then Inr (PosInfinity, t')
         else if lowerToken = ''-inf'' \<or> lowerToken = ''-infinity'' then Inr (NegInfinity, t')
         else if lowerToken = ''nan'' then Inr (NaN, t')
         else if float_str \<noteq> [] \<and> last float_str = CHR ''f''
         then Inr (parseFloat (butlast float_str), t')
         else Inr (parseFloat float_str, t'))"

definition consumeBool :: "tokenizer \<Rightarrow> bool result" where
  \<open>consumeBool t =
     (let bool_str = token t; t' = nextToken t
      in if bool_str = ''true'' \<or> bool_str = ''t'' \<or> bool_str = ''1'' then Inr (True, t')
         else if bool_str = ''false'' \<or> bool_str = ''f'' \<or> bool_str = ''0'' then Inr (False, t')
         else Inl (parseErrorPreviousToken t'
                     (''Expected "true" or "false", found "'' @ bool_str @ ''"''), t'))\<close>

definition consumeBool_p0 :: "tokenizer \<Rightarrow> bool result" where
  \<open>consumeBool_p0 t =
     (let bool_str = token t; t' = nextToken t
      in if bool_str = ''true'' \<or> bool_str = ''True'' \<or> bool_str = ''t'' \<or> bool_str = ''1''
         then Inr (True, t')
         else if bool_str = ''false'' \<or> bool_str = ''False'' \<or> bool_str = ''f'' \<or> bool_str = ''0''
         then Inr (False, t')
         else Inl (parseErrorPreviousToken t'
                     (''Expected "true", "True", "t", 1, or "false", "False", "f", 0; found "''
                      @ bool_str @ ''"''), t'))\<close>

subsection \<open>String literals\<close>

definition units :: "string \<Rightarrow> int list" where
  "units s = map of_char s"

text \<open>\<^verbatim>\<open>String.fromCharCode\<close>: the argument modulo \<open>2^16\<close>, and 0 for a NaN.\<close>

definition fromCharCode :: "jsnum \<Rightarrow> int" where
  "fromCharCode x =
     (case x of
        Fin r \<Rightarrow> (if 0 \<le> r then \<lfloor>r\<rfloor> else \<lceil>r\<rceil>) mod 65536
      | _ \<Rightarrow> 0)"

text \<open>
  \<^verbatim>\<open>String.fromCodePoint\<close>: a RangeError unless the argument is an integer from 0
  to \<open>0x10FFFF\<close>; a code point above \<open>0xFFFF\<close> is a surrogate pair.
\<close>

definition fromCodePoint :: "jsnum \<Rightarrow> error + int list" where
  "fromCodePoint x =
     (case x of
        Fin r \<Rightarrow>
          if r \<noteq> of_int \<lfloor>r\<rfloor> \<or> r < 0 \<or> 1114111 < r then Inl (JsError ''Invalid code point'')
          else (let n = \<lfloor>r\<rfloor>
                in if n \<le> 65535 then Inr [n]
                   else Inr [55296 + (n - 65536) div 1024, 56320 + (n - 65536) mod 1024])
      | _ \<Rightarrow> Inl (JsError ''Invalid code point''))"

text \<open>
  \<^verbatim>\<open>unicode += source[i]\<close> for \<open>n\<close> successive indices: past the end of the string
  \<^verbatim>\<open>source[i]\<close> is \<^verbatim>\<open>undefined\<close>, which the concatenation spells out.
\<close>

fun read_chars :: "nat \<Rightarrow> string \<Rightarrow> string" where
  "read_chars 0 s = []"
| "read_chars (Suc n) [] = ''undefined'' @ read_chars n []"
| "read_chars (Suc n) (c # cs) = c # read_chars n cs"

text \<open>The escapes of one character, with the code unit each stands for.\<close>

definition simple_escape :: "char \<Rightarrow> int option" where
  \<open>simple_escape c =
     map_of [(CHR ''a'', 7), (CHR ''b'', 8), (CHR ''f'', 12), (CHR ''n'', 10), (CHR ''r'', 13),
             (CHR ''t'', 9), (CHR ''v'', 11), (CHR ''?'', 63), (CHR 0x5C, 92), (CHR 0x27, 39),
             (CHR 0x22, 34)] c\<close>

text \<open>
  One round of the \<^verbatim>\<open>while\<close> loop of \<^verbatim>\<open>cUnescape\<close> in \<^verbatim>\<open>parser.ts\<close>. The
  argument is \<^verbatim>\<open>source\<close> from index \<^verbatim>\<open>i\<close> on; the result is what the round
  appends to \<^verbatim>\<open>result\<close> and \<^verbatim>\<open>source\<close> from the new index on. After a
  one-character escape the index stays on the escape character (these cases
  have no \<^verbatim>\<open>i++\<close>), so the next round starts at \<open>d # ds\<close>.
\<close>

definition cUnescape_step :: "string \<Rightarrow> error + (int list \<times> string)" where
  "cUnescape_step s =
     (case s of
        [] \<Rightarrow> Inr ([], [])
      | c # cs \<Rightarrow>
          if c \<noteq> CHR 0x5C then Inr ([of_char c], cs)
          else
            (case cs of
               [] \<Rightarrow> Inr (units ''undefined'', [])
             | d # ds \<Rightarrow>
                 (case simple_escape d of
                    Some u \<Rightarrow> Inr ([u], d # ds)
                  | None \<Rightarrow>
                      if is_radix_digit 8 d then
                        (let octal = takeWhile (is_radix_digit 8) (take 3 (d # ds))
                         in Inr ([fromCharCode (parseInt octal 8)], drop (length octal) (d # ds)))
                      else if d = CHR ''x'' then
                        (let hex = takeWhile (is_radix_digit 16) (take 2 ds)
                         in Inr ([fromCharCode (parseInt hex 16)], drop (length hex) ds))
                      else if d = CHR ''u'' then
                        Inr ([fromCharCode (parseInt (read_chars 4 ds) 16)], drop 4 ds)
                      else if d = CHR ''U'' then
                        (let isFourByte = (take 4 ds = ''0010'');
                             numDigits = (if isFourByte then 4 else 5);
                             skip = (if isFourByte then 4 else 3)
                         in case fromCodePoint (parseInt (read_chars numDigits (drop skip ds)) 16) of
                              Inl e \<Rightarrow> Inl e
                            | Inr us \<Rightarrow> Inr (us, drop (skip + numDigits) ds))
                      else Inr ([of_char d], d # ds))))"

text \<open>
  The same round in \<^verbatim>\<open>part_000\<close>: the one-character escapes step over the
  escape character, and \<^verbatim>\<open>\U\<close> reads up to eight characters. The default case
  is the same text as in \<^verbatim>\<open>parser.ts\<close>.
\<close>

definition cUnescape_step_p0 :: "string \<Rightarrow> error + (int list \<times> string)" where
  "cUnescape_step_p0 s =
     (case s of
        [] \<Rightarrow> Inr ([], [])
      | c # cs \<Rightarrow>
          if c \<noteq> CHR 0x5C then Inr ([of_char c], cs)
          else
            (case cs of
               [] \<Rightarrow> Inr (units ''undefined'', [])
             | d # ds \<Rightarrow>
                 (case simple_escape d of
                    Some u \<Rightarrow> Inr ([u], ds)
                  | None \<Rightarrow>
                      if is_radix_digit 8 d then
                        (let octal = takeWhile (is_radix_digit 8) (take 3 (d # ds))
                         in Inr ([fromCharCode (parseInt octal 8)], drop (length octal) (d # ds)))
                      else if d = CHR ''x'' then
                        (let hex = takeWhile (is_radix_digit 16) (take 2 ds)
                         in Inr ([fromCharCode (parseInt hex 16)], drop (length hex) ds))
                      else if d = CHR ''u'' then
                        Inr ([fromCharCode (parseInt (read_chars 4 ds) 16)], drop 4 ds)
                      else if d = CHR ''U'' then
                        (case fromCodePoint (parseInt (take 8 ds) 16) of
                           Inl e \<Rightarrow> Inl e
                         | Inr us \<Rightarrow> Inr (us, drop 8 ds))
                      else Inr ([of_char d], d # ds))))"

lemma cUnescape_step_shorter:
  "cUnescape_step (c # cs) = Inr (us, s') \<Longrightarrow> length s' \<le> length cs"
  by (auto simp: cUnescape_step_def Let_def split: if_splits list.splits option.splits sum.splits)

lemma cUnescape_step_p0_shorter:
  "cUnescape_step_p0 (c # cs) = Inr (us, s') \<Longrightarrow> length s' \<le> length cs"
  by (auto simp: cUnescape_step_p0_def Let_def split: if_splits list.splits option.splits sum.splits)

text \<open>The loop \<^verbatim>\<open>while (i < source.length)\<close> around a round, with \<^verbatim>\<open>result\<close>.\<close>

function cUnescape_from :: "string \<Rightarrow> int list \<Rightarrow> error + int list" where
  "cUnescape_from s result =
     (if s = [] then Inr result
      else (case cUnescape_step s of
              Inl e \<Rightarrow> Inl e
            | Inr (us, s') \<Rightarrow> cUnescape_from s' (result @ us)))"
  by pat_completeness auto
termination
proof (relation "measure (\<lambda>(s, r). length s)")
  show "wf (measure (\<lambda>(s, r). length s))" by simp
next
  fix s :: string and result :: "int list" and x us s'
  assume "s \<noteq> []" and "cUnescape_step s = Inr x" and "(us, s') = x"
  then show "((s', result @ us), (s, result)) \<in> measure (\<lambda>(s, r). length s)"
    by (cases s) (auto dest: cUnescape_step_shorter)
qed

function cUnescape_from_p0 :: "string \<Rightarrow> int list \<Rightarrow> error + int list" where
  "cUnescape_from_p0 s result =
     (if s = [] then Inr result
      else (case cUnescape_step_p0 s of
              Inl e \<Rightarrow> Inl e
            | Inr (us, s') \<Rightarrow> cUnescape_from_p0 s' (result @ us)))"
  by pat_completeness auto
termination
proof (relation "measure (\<lambda>(s, r). length s)")
  show "wf (measure (\<lambda>(s, r). length s))" by simp
next
  fix s :: string and result :: "int list" and x us s'
  assume "s \<noteq> []" and "cUnescape_step_p0 s = Inr x" and "(us, s') = x"
  then show "((s', result @ us), (s, result)) \<in> measure (\<lambda>(s, r). length s)"
    by (cases s) (auto dest: cUnescape_step_p0_shorter)
qed

declare cUnescape_from.simps [simp del] cUnescape_from_p0.simps [simp del]

definition cUnescape :: "string \<Rightarrow> error + int list" where
  "cUnescape source = cUnescape_from source []"

definition cUnescape_p0 :: "string \<Rightarrow> error + int list" where
  "cUnescape_p0 source = cUnescape_from_p0 source []"


lemma skipWhitespace_remaining: "remaining (skipWhitespace t) \<le> remaining t"
proof (induction t rule: skipWhitespace.induct)
  case (1 t)
  let ?t1 = "popLine t"
  let ?n = "ws_len (drop (p_column ?t1) (p_current_line ?t1))"
  show ?case
  proof (cases "p_more_lines ?t1 \<and> 0 < ?n")
    case True
    then have eq: "skipWhitespace t = skipWhitespace (?t1\<lparr>p_column := p_column ?t1 + ?n\<rparr>)"
      by (subst skipWhitespace.simps) simp
    have "remaining (?t1\<lparr>p_column := p_column ?t1 + ?n\<rparr>) \<le> remaining ?t1"
      by (simp add: remaining_def)
    moreover have "remaining (skipWhitespace t) \<le> remaining (?t1\<lparr>p_column := p_column ?t1 + ?n\<rparr>)"
      using True 1 eq by simp
    ultimately show ?thesis
      using popLine_remaining [of t] by linarith
  next
    case False
    then have "skipWhitespace t = ?t1"
      by (subst skipWhitespace.simps) auto
    then show ?thesis by (simp add: popLine_remaining)
  qed
qed

lemma token_match_length:
  "token_match s = Some m \<Longrightarrow> m \<noteq> [] \<and> length m \<le> length s"
proof -
  have tw: "\<And>P xs. length (takeWhile P xs) \<le> length xs" by (rule length_takeWhile_le)
  assume a: "token_match s = Some m"
  show ?thesis
  proof (cases s)
    case Nil
    with a show ?thesis by (simp add: token_match_def)
  next
    case (Cons c cs)
    with a tw [of is_ident_tail cs] tw [of is_number_tail cs] tw [of is_number_tail "tl cs"]
    show ?thesis
      by (cases cs) (auto simp: token_match_def quoted_match_def Let_def
            split: if_splits option.splits)
  qed
qed

text \<open>
  What is left to read after the current token; it is 0 at the end of the
  input. Every \<^verbatim>\<open>nextToken\<close> on a token that is not empty makes it smaller.
\<close>

definition pending :: "tokenizer \<Rightarrow> nat" where
  "pending t =
     (if token t = [] then 0
      else Suc (remaining (t\<lparr>p_column := p_column t + length (token t)\<rparr>)))"

lemma nextToken_pending: "token t \<noteq> [] \<Longrightarrow> pending (nextToken t) < pending t"
proof -
  assume ne: "token t \<noteq> []"
  let ?t0 = "t\<lparr>p_previous_line := p_line t, p_previous_column := p_column t,
                p_column := p_column t + length (token t)\<rparr>"
  let ?t1 = "skipWhitespace ?t0"
  let ?r = "drop (p_column ?t1) (p_current_line ?t1)"
  have r0: "remaining ?t0 = remaining (t\<lparr>p_column := p_column t + length (token t)\<rparr>)"
    by (simp add: remaining_def)
  have le: "remaining ?t1 \<le> remaining ?t0" by (rule skipWhitespace_remaining)
  have tok: "pending (?t1\<lparr>token := m\<rparr>) \<le> remaining ?t1"
    if "m \<noteq> []" and "length m \<le> length ?r" for m
  proof -
    from that show ?thesis
      by (cases m) (auto simp: pending_def remaining_def)
  qed
  have e: "pending (?t1\<lparr>token := []\<rparr>) = 0" by (simp add: pending_def)
  have "pending (nextToken t) \<le> remaining ?t1"
  proof (cases "\<not> p_more_lines ?t1 \<or> ?r = []")
    case True
    then have "nextToken t = ?t1\<lparr>token := []\<rparr>"
      by (auto simp: nextToken_def Let_def)
    with e show ?thesis by simp
  next
    case False
    show ?thesis
    proof (cases "token_match ?r")
      case None
      with False have "nextToken t = ?t1\<lparr>token := [hd ?r]\<rparr>"
        by (auto simp: nextToken_def Let_def)
      moreover from False have "length [hd ?r] \<le> length ?r" by (cases ?r) auto
      ultimately show ?thesis using tok [of "[hd ?r]"] by simp
    next
      case (Some m)
      with False have "nextToken t = ?t1\<lparr>token := m\<rparr>"
        by (auto simp: nextToken_def Let_def)
      with token_match_length [OF Some] tok [of m] show ?thesis by simp
    qed
  qed
  with le r0 ne show ?thesis by (simp add: pending_def)
qed

subsection \<open>Quoted literals\<close>

text \<open>
  \<^verbatim>\<open>_consumeByteString\<close> and \<^verbatim>\<open>consumeString\<close> are the same text in both
  revisions; they differ in the \<^verbatim>\<open>cUnescape\<close> they call, which is the first
  argument here. An exception of \<^verbatim>\<open>cUnescape\<close> becomes a \<^verbatim>\<open>ParseError\<close> with
  the same message at the current position.
\<close>

definition is_quote :: "char \<Rightarrow> bool" where
  "is_quote c = (c = CHR 0x27 \<or> c = CHR 0x22)"

definition p_consumeByteString ::
  "(string \<Rightarrow> error + int list) \<Rightarrow> tokenizer \<Rightarrow> (int list) result" where
  "p_consumeByteString unescape t =
     (let text = token t
      in if length text < 1 \<or> \<not> is_quote (hd text)
         then Inl (parseError t (''Expected string but found: '' @ text), t)
         else if length text < 2 \<or> last text \<noteq> hd text
         then Inl (parseError t (''String missing ending quote: '' @ text), t)
         else (case unescape (butlast (tl text)) of
                 Inr result \<Rightarrow> Inr (result, nextToken t)
               | Inl (JsError m) \<Rightarrow> Inl (parseError t m, t)
               | Inl e \<Rightarrow> Inl (e, t)))"

lemma p_consumeByteString_next:
  "p_consumeByteString unescape t = Inr (r, t') \<Longrightarrow> t' = nextToken t \<and> token t \<noteq> []"
  by (auto simp: p_consumeByteString_def Let_def split: if_splits sum.splits error.splits)

text \<open>The loop \<^verbatim>\<open>while (this.token && _QUOTES.has(this.token[0]))\<close>.\<close>

function consumeString_more ::
  "(string \<Rightarrow> error + int list) \<Rightarrow> tokenizer \<Rightarrow> int list \<Rightarrow> (int list) result" where
  "consumeString_more unescape t result =
     (if token t \<noteq> [] \<and> is_quote (hd (token t)) then
        (case p_consumeByteString unescape t of
           Inl e \<Rightarrow> Inl e
         | Inr (r, t') \<Rightarrow> consumeString_more unescape t' (result @ r))
      else Inr (result, t))"
  by pat_completeness auto
termination
proof (relation "measure (\<lambda>(u, t, r). pending t)")
  show "wf (measure (\<lambda>(u, t, r). pending t))" by simp
next
  fix unescape t and result :: "int list" and x r t'
  assume "token t \<noteq> [] \<and> is_quote (hd (token t))"
    and "p_consumeByteString unescape t = Inr x" and "(r, t') = x"
  then show "((unescape, t', result @ r), (unescape, t, result)) \<in> measure (\<lambda>(u, t, r). pending t)"
    by (auto dest!: p_consumeByteString_next simp: nextToken_pending)
qed

declare consumeString_more.simps [simp del]

definition consumeString_with ::
  "(string \<Rightarrow> error + int list) \<Rightarrow> tokenizer \<Rightarrow> (int list) result" where
  "consumeString_with unescape t =
     (case p_consumeByteString unescape t of
        Inl e \<Rightarrow> Inl e
      | Inr (result, t') \<Rightarrow> consumeString_more unescape t' result)"

definition consumeString :: "tokenizer \<Rightarrow> (int list) result" where
  "consumeString = consumeString_with cUnescape"

definition consumeString_p0 :: "tokenizer \<Rightarrow> (int list) result" where
  "consumeString_p0 = consumeString_with cUnescape_p0"

text \<open>
  Storing a code unit into a \<^verbatim>\<open>Uint8Array\<close> keeps it modulo 256.
  \<^verbatim>\<open>consumeByteString\<close> reads one literal in \<^verbatim>\<open>parser.ts\<close> and a run of
  adjacent literals in \<^verbatim>\<open>part_000\<close>.
\<close>

definition to_octets :: "int list \<Rightarrow> int list" where
  "to_octets text = map (\<lambda>u. u mod 256) text"

definition consumeByteString :: "tokenizer \<Rightarrow> (int list) result" where
  "consumeByteString t =
     (case p_consumeByteString cUnescape t of
        Inl e \<Rightarrow> Inl e
      | Inr (text, t') \<Rightarrow> Inr (to_octets text, t'))"

definition consumeByteString_p0 :: "tokenizer \<Rightarrow> (int list) result" where
  "consumeByteString_p0 t =
     (case consumeString_with cUnescape_p0 t of
        Inl e \<Rightarrow> Inl e
      | Inr (text, t') \<Rightarrow> Inr (to_octets text, t'))"

text \<open>\<^verbatim>\<open>tryConsumeAnyScalar\<close> exists in \<^verbatim>\<open>part_000\<close> only.\<close>

definition tryConsumeAnyScalar_p0 :: "tokenizer \<Rightarrow> bool \<times> tokenizer" where
  "tryConsumeAnyScalar_p0 t =
     (if atEnd t then (False, t)
      else
        (let tok = token t
         in if length tok > 0 \<and> is_quote (hd tok) then
              (case consumeString_p0 t of
                 Inr (s, t') \<Rightarrow> (True, t')
               | Inl (e, t') \<Rightarrow> (False, t'))
            else if (is_alpha_us (hd tok) \<and> list_all is_ident_tail (tl tok))
                 \<or> ((is_digit (hd tok) \<or> hd tok = CHR ''+'' \<or> hd tok = CHR ''-'')
                      \<and> list_all is_number_tail (tl tok))
                 \<or> (hd tok = CHR ''.'' \<and> tl tok \<noteq> [] \<and> is_digit (hd (tl tok))
                      \<and> list_all is_number_tail (tl (tl tok)))
            then (True, nextToken t)
            else (False, t)))"

subsection \<open>The schema as the parser reads it\<close>

text \<open>
  The descriptors come from protobuf.js; the parser only reads them. A message
  type is named by its full name, under which \<open>r_types\<close> holds it; a field's
  resolved type is a message type, an enum, or nothing for a scalar. The
  descriptors are taken as resolved, so that \<^verbatim>\<open>field.resolve()\<close> changes nothing.
  \<open>r_lookupType\<close> is what \<^verbatim>\<open>root.lookupType\<close> finds under a type name as a map
  field states it, and \<open>descriptorPool\<close> what \<^verbatim>\<open>descriptorPool.lookup\<close> finds.
\<close>

record enumtype =
  e_name :: string
  e_values :: "(string \<times> int) list"

datatype resolved = RType string | REnum enumtype

record field =
  f_name :: string
  f_id :: int
  f_type :: string
  f_repeated :: bool
  f_map :: bool
  f_keyType :: string
  f_resolvedType :: "resolved option"
  f_parent :: string

record mtype =
  t_fullName :: string
  t_fields :: "(string \<times> field) list"

text \<open>What \<^verbatim>\<open>descriptorPool.lookup\<close> finds, when it finds something.\<close>

datatype reflection = AField field | NotAField

record parser =
  allowUnknownExtension :: bool
  allowFieldNumber :: bool
  descriptorPool :: "(string \<times> reflection) list"
  allowUnknownField :: bool
  r_types :: "(string \<times> mtype) list"
  r_lookupType :: "(string \<times> string) list"

text \<open>
  Reading a property of a plain JavaScript object: an own property, a member
  that every object inherits from \<^verbatim>\<open>Object.prototype\<close>, or nothing.
\<close>

datatype 'a got = Own 'a | Inherited | Absent

definition object_prototype_keys :: "string list" where
  "object_prototype_keys =
     [''constructor'', ''hasOwnProperty'', ''isPrototypeOf'', ''propertyIsEnumerable'',
      ''toLocaleString'', ''toString'', ''valueOf'', ''__proto__'', ''__defineGetter__'',
      ''__defineSetter__'', ''__lookupGetter__'', ''__lookupSetter__'']"

definition js_get :: "(string \<times> 'a) list \<Rightarrow> string \<Rightarrow> 'a got" where
  "js_get obj k =
     (case map_of obj k of
        Some v \<Rightarrow> Own v
      | None \<Rightarrow> if k \<in> set object_prototype_keys then Inherited else Absent)"

text \<open>The last component of a dotted full name: the \<^verbatim>\<open>name\<close> of a type.\<close>

definition simple_name :: "string \<Rightarrow> string" where
  "simple_name fn = rev (takeWhile (\<lambda>c. c \<noteq> CHR ''.'') (rev fn))"

definition resolved_name :: "resolved \<Rightarrow> string" where
  "resolved_name r = (case r of RType fn \<Rightarrow> simple_name fn | REnum e \<Rightarrow> e_name e)"

subsection \<open>The target message\<close>

text \<open>
  A message is an object with the properties that were assigned to it, and the
  type it was created for. Defaults that a message inherits from its prototype
  are not part of the model: a property that was never assigned reads as
  \<^verbatim>\<open>undefined\<close>, and \<^verbatim>\<open>create()\<close> gives a message without properties. A map
  field holds a plain object: its own properties, under the string form of
  their keys, listed in the order of their creation (nothing here depends on
  the order, which JavaScript changes for keys that are array indices). When
  an operation fails, the model gives the error and the tokenizer as the error
  left it; what had been written to the message before is not kept.
\<close>

datatype jsvalue =
    VScalar scalar
  | VMessage message
  | VArray "jsvalue list"
  | VObject "(int list \<times> jsvalue) list"
and message = Message string "(string \<times> jsvalue) list"

fun m_type :: "message \<Rightarrow> string" where
  "m_type (Message ty ps) = ty"

fun m_props :: "message \<Rightarrow> (string \<times> jsvalue) list" where
  "m_props (Message ty ps) = ps"

fun put :: "'k \<Rightarrow> 'v \<Rightarrow> ('k \<times> 'v) list \<Rightarrow> ('k \<times> 'v) list" where
  "put k v [] = [(k, v)]"
| "put k v ((k', v') # ps) = (if k' = k then (k, v) # ps else (k', v') # put k v ps)"

definition get_prop :: "message \<Rightarrow> string \<Rightarrow> jsvalue option" where
  "get_prop m k = map_of (m_props m) k"

definition set_prop :: "message \<Rightarrow> string \<Rightarrow> jsvalue \<Rightarrow> message" where
  "set_prop m k v = Message (m_type m) (put k v (m_props m))"

definition create :: "string \<Rightarrow> message" where
  "create ty = Message ty []"

text \<open>Whether a property, read from a message, counts as true.\<close>

definition truthy :: "jsvalue option \<Rightarrow> bool" where
  "truthy v =
     (case v of
        None \<Rightarrow> False
      | Some (VScalar (SNumber x)) \<Rightarrow> x \<noteq> NaN \<and> x \<noteq> Fin 0
      | Some (VScalar (SBigInt i)) \<Rightarrow> i \<noteq> 0
      | Some (VScalar (SBool b)) \<Rightarrow> b
      | Some (VScalar (SString s)) \<Rightarrow> s \<noteq> []
      | Some (VScalar SUndefined) \<Rightarrow> False
      | Some _ \<Rightarrow> True)"

text \<open>\<^verbatim>\<open>if (!Array.isArray(message[name])) message[name] = []; message[name].push(v)\<close>\<close>

definition push_prop :: "message \<Rightarrow> string \<Rightarrow> jsvalue \<Rightarrow> message" where
  "push_prop m k v =
     (case get_prop m k of
        Some (VArray xs) \<Rightarrow> set_prop m k (VArray (xs @ [v]))
      | _ \<Rightarrow> set_prop m k (VArray [v]))"

text \<open>
  The string form of a value that is used as a property key. A Number that is
  an integer of at most 53 bits is written in decimal; for any other finite
  Number the string depends on the rounding to a 64-bit float, which is outside
  the model. An octet array is written as its octets in decimal, separated by
  commas.
\<close>

function decimal_digits :: "int \<Rightarrow> int list" where
  "decimal_digits i =
     (if i < 10 then [48 + i] else decimal_digits (i div 10) @ [48 + i mod 10])"
  by pat_completeness auto
termination
  by (relation "measure nat") auto

definition show_int :: "int \<Rightarrow> int list" where
  "show_int i = (if i < 0 then 45 # decimal_digits (- i) else decimal_digits i)"

fun join_commas :: "int list list \<Rightarrow> int list" where
  "join_commas [] = []"
| "join_commas [x] = x"
| "join_commas (x # y # ys) = x @ 44 # join_commas (y # ys)"

definition key_string :: "scalar \<Rightarrow> int list option" where
  "key_string key =
     (case key of
        SUndefined \<Rightarrow> Some (units ''undefined'')
      | SString s \<Rightarrow> Some s
      | SBool b \<Rightarrow> Some (units (if b then ''true'' else ''false''))
      | SBigInt i \<Rightarrow> Some (show_int i)
      | SBytes octets \<Rightarrow> Some (join_commas (map show_int octets))
      | SNumber x \<Rightarrow>
          (case x of
             NaN \<Rightarrow> Some (units ''NaN'')
           | PosInfinity \<Rightarrow> Some (units ''Infinity'')
           | NegInfinity \<Rightarrow> Some (units ''-Infinity'')
           | Fin r \<Rightarrow>
               if r = of_int \<lfloor>r\<rfloor> \<and> \<bar>r\<bar> \<le> 9007199254740992 then Some (show_int \<lfloor>r\<rfloor>)
               else None))"

text \<open>
  \<^verbatim>\<open>object[key] = value\<close> on a plain object. An own property is replaced, and a
  new key becomes an own property, except the key \<^verbatim>\<open>__proto__\<close>: when the object
  has no own property of that name the assignment reaches the setter that
  \<^verbatim>\<open>Object.prototype\<close> has for it, which ignores a primitive value and stores
  nothing. With an object as the value the setter replaces the prototype of
  the map object, which is outside the model.
\<close>

definition proto_key :: "int list" where
  "proto_key = units ''__proto__''"

definition is_primitive :: "jsvalue \<Rightarrow> bool" where
  "is_primitive v =
     (case v of
        VScalar s \<Rightarrow> (case s of SBytes octets \<Rightarrow> False | _ \<Rightarrow> True)
      | _ \<Rightarrow> False)"

definition assign_key ::
  "(int list \<times> jsvalue) list \<Rightarrow> int list \<Rightarrow> jsvalue \<Rightarrow> error + (int list \<times> jsvalue) list" where
  "assign_key kvs ks v =
     (if map_of kvs ks = None \<and> ks = proto_key
      then (if is_primitive v then Inr kvs else Inl Unmodelled)
      else Inr (put ks v kvs))"

text \<open>
  \<^verbatim>\<open>if (!message[name]) message[name] = {}; message[name][key] = value\<close>. The
  module is strict, so that creating a property on a primitive value is a
  TypeError, except for the key \<^verbatim>\<open>__proto__\<close>, whose setter returns without
  doing anything. Outside the model: a field whose name every object inherits
  from \<^verbatim>\<open>Object.prototype\<close> and that was never assigned, and a property that
  holds an array, an octet array or a message.
\<close>

definition map_insert :: "message \<Rightarrow> string \<Rightarrow> scalar \<Rightarrow> jsvalue \<Rightarrow> error + message" where
  "map_insert m k key v =
     (case key_string key of
        None \<Rightarrow> Inl Unmodelled
      | Some ks \<Rightarrow>
          if get_prop m k = None \<and> k \<in> set object_prototype_keys then Inl Unmodelled
          else if \<not> truthy (get_prop m k) then
            map_sum id (\<lambda>kvs'. set_prop m k (VObject kvs')) (assign_key [] ks v)
          else (case get_prop m k of
                  Some (VObject kvs) \<Rightarrow>
                    map_sum id (\<lambda>kvs'. set_prop m k (VObject kvs')) (assign_key kvs ks v)
                | Some (VScalar s) \<Rightarrow>
                    (case s of
                       SBytes octets \<Rightarrow> Inl Unmodelled
                     | _ \<Rightarrow> if ks = proto_key then Inr m else Inl (JsError ''TypeError''))
                | _ \<Rightarrow> Inl Unmodelled))"

subsection \<open>The parser of parser.ts\<close>

fun toUpperCase_char :: "char \<Rightarrow> char" where
  "toUpperCase_char c =
     (let n = (of_char c :: nat) in if 97 \<le> n \<and> n \<le> 122 then char_of (n - 32) else c)"

text \<open>\<^verbatim>\<open>str.replace(/_([a-z])/g, (g) => g[1].toUpperCase())\<close>\<close>

fun toCamelCase :: "string \<Rightarrow> string" where
  "toCamelCase (c # d # cs) =
     (if c = CHR ''_'' \<and> (97::nat) \<le> of_char d \<and> of_char d \<le> (122::nat)
      then toUpperCase_char d # toCamelCase cs
      else c # toCamelCase (d # cs))"
| "toCamelCase cs = cs"

definition parseScalar :: "tokenizer \<Rightarrow> string \<Rightarrow> scalar result" where
  "parseScalar t type =
     (if type = ''double'' \<or> type = ''float'' then
        map_sum id (\<lambda>(v, t'). (SNumber v, t')) (consumeFloat t)
      else if type = ''int32'' \<or> type = ''sint32'' \<or> type = ''sfixed32'' then
        map_sum id (\<lambda>(v, t'). (SNumber v, t')) (consumeInt32 t)
      else if type = ''uint32'' \<or> type = ''fixed32'' then
        map_sum id (\<lambda>(v, t'). (SNumber v, t')) (consumeUint32 t)
      else if type = ''int64'' \<or> type = ''sint64'' \<or> type = ''sfixed64'' then
        map_sum id (\<lambda>(v, t'). (SBigInt v, t')) (consumeInt64 t)
      else if type = ''uint64'' \<or> type = ''fixed64'' then
        map_sum id (\<lambda>(v, t'). (SBigInt v, t')) (consumeUint64 t)
      else if type = ''bool'' then
        map_sum id (\<lambda>(v, t'). (SBool v, t')) (consumeBool t)
      else if type = ''string'' then
        map_sum id (\<lambda>(v, t'). (SString v, t')) (consumeString t)
      else if type = ''bytes'' then
        map_sum id (\<lambda>(v, t'). (SBytes v, t')) (consumeByteString t)
      else Inl (parseError t (''Unknown scalar type: '' @ type), t))"

text \<open>\<^verbatim>\<open>/^-?\d+$/\<close>\<close>

definition is_decimal_int :: "string \<Rightarrow> bool" where
  "is_decimal_int s =
     (let r = (if s \<noteq> [] \<and> hd s = CHR ''-'' then tl s else s)
      in r \<noteq> [] \<and> list_all is_digit r)"

definition parseEnum :: "enumtype \<Rightarrow> string \<Rightarrow> error + jsnum" where
  \<open>parseEnum enumType v =
     (if is_decimal_int v then Inr (parseInt v 10)
      else (case js_get (e_values enumType) v of
              Own n \<Rightarrow> Inr (Fin (of_int n))
            | Absent \<Rightarrow>
                Inl (ParseError (''Enum type "'' @ e_name enumType @ ''" has no value named '' @ v @ ''.'')
                       None None)
            | Inherited \<Rightarrow> Inl Unmodelled))\<close>

definition mergeScalarField :: "tokenizer \<Rightarrow> message \<Rightarrow> field \<Rightarrow> message result" where
  "mergeScalarField t message fld =
     (let r = (case f_resolvedType fld of
                 Some (REnum enumType) \<Rightarrow>
                   (case consumeIdentifierOrNumber t of
                      Inl e \<Rightarrow> Inl e
                    | Inr (enumValueStr, t') \<Rightarrow>
                        (case parseEnum enumType enumValueStr of
                           Inl e \<Rightarrow> Inl (e, t')
                         | Inr n \<Rightarrow> Inr (SNumber n, t')))
               | _ \<Rightarrow> parseScalar t (f_type fld))
      in case r of
           Inl e \<Rightarrow> Inl e
         | Inr (v, t') \<Rightarrow>
             if f_repeated fld then Inr (push_prop message (f_name fld) (VScalar v), t')
             else Inr (set_prop message (f_name fld) (VScalar v), t'))"

text \<open>The delimiter: \<^verbatim>\<open>tokenizer.tryConsume('<') ? '>' : (tokenizer.consume('{'), '}')\<close>\<close>

definition open_delimiter :: "tokenizer \<Rightarrow> string result" where
  "open_delimiter t =
     (case tryConsume ''<'' t of
        (True, t') \<Rightarrow> Inr (''>'', t')
      | (False, t') \<Rightarrow>
          (case consume ''{'' t' of Inl e \<Rightarrow> Inl e | Inr (u, t'') \<Rightarrow> Inr (''}'', t'')))"


text \<open>
  How a field name resolved: to a field; to a reflection object that is not a
  field (an unknown extension that is let through); to a member inherited from
  \<^verbatim>\<open>Object.prototype\<close>; or to nothing.
\<close>

datatype found = Found field | FoundOther | FoundInherited | NotFound

text \<open>\<^verbatim>\<open>while (tokenizer.tryConsume('.')) name += '.' + tokenizer.consumeIdentifier()\<close>\<close>

fun extension_name :: "nat \<Rightarrow> tokenizer \<Rightarrow> string \<Rightarrow> string result" where
  "extension_name 0 t name = Inl (OutOfFuel, t)"
| "extension_name (Suc n) t name =
     (case tryConsume ''.'' t of
        (True, t1) \<Rightarrow>
          (case consumeIdentifier t1 of
             Inl e \<Rightarrow> Inl e
           | Inr (part, t2) \<Rightarrow> extension_name n t2 (name @ ''.'' @ part))
      | (False, t1) \<Rightarrow> Inr (name, t1))"

text \<open>
  The first part of \<^verbatim>\<open>mergeField\<close>, up to \<^verbatim>\<open>if (!field)\<close>: the field and the
  name as written. The text is the same in both revisions.
\<close>

definition find_field :: "nat \<Rightarrow> parser \<Rightarrow> tokenizer \<Rightarrow> mtype \<Rightarrow> (found \<times> string) result" where
  \<open>find_field n p t messageDescriptor =
     (case tryConsume ''['' t of
        (True, t1) \<Rightarrow>
          (case consumeIdentifier t1 of
             Inl e \<Rightarrow> Inl e
           | Inr (first, t2) \<Rightarrow>
               (case extension_name n t2 first of
                  Inl e \<Rightarrow> Inl e
                | Inr (name, t3) \<Rightarrow>
                    (case consume '']'' t3 of
                       Inl e \<Rightarrow> Inl e
                     | Inr (u, t4) \<Rightarrow>
                         (case map_of (descriptorPool p) name of
                            Some (AField f) \<Rightarrow>
                              if f_parent f \<noteq> t_fullName messageDescriptor then
                                Inl (parseErrorPreviousToken t4
                                       (''Extension "'' @ name @ ''" does not extend message type "''
                                        @ t_fullName messageDescriptor @ ''".''), t4)
                              else Inr ((Found f, name), t4)
                          | Some NotAField \<Rightarrow>
                              if \<not> allowUnknownExtension p then
                                Inl (parseErrorPreviousToken t4
                                       (''Extension "'' @ name @ ''" not found.''), t4)
                              else Inr ((FoundOther, name), t4)
                          | None \<Rightarrow>
                              if \<not> allowUnknownExtension p then
                                Inl (parseErrorPreviousToken t4
                                       (''Extension "'' @ name @ ''" not found.''), t4)
                              else Inr ((NotFound, name), t4)))))
      | (False, t0) \<Rightarrow>
          (case consumeIdentifierOrNumber t0 of
             Inl e \<Rightarrow> Inl e
           | Inr (name, t1) \<Rightarrow>
               if allowFieldNumber p \<and> name \<noteq> [] \<and> list_all is_digit name then
                 (case find (\<lambda>(k, f). Fin (of_int (f_id f)) = parseInt name 10)
                         (t_fields messageDescriptor) of
                    Some (k, f) \<Rightarrow> Inr ((Found f, name), t1)
                  | None \<Rightarrow> Inr ((NotFound, name), t1))
               else
                 (case js_get (t_fields messageDescriptor) (toCamelCase name) of
                    Own f \<Rightarrow> Inr ((Found f, name), t1)
                  | Inherited \<Rightarrow> Inr ((FoundInherited, name), t1)
                  | Absent \<Rightarrow>
                      (case js_get (t_fields messageDescriptor) (toLowerCase name) of
                         Own f \<Rightarrow>
                           (case f_resolvedType f of
                              Some r \<Rightarrow>
                                if resolved_name r = name then Inr ((Found f, name), t1)
                                else Inr ((NotFound, name), t1)
                            | None \<Rightarrow> Inr ((NotFound, name), t1))
                       | _ \<Rightarrow> Inr ((NotFound, name), t1)))))\<close>

text \<open>
  The recursive methods call each other through \<^verbatim>\<open>this\<close>. Each is defined here
  with the methods it calls back as arguments; the recursion is closed at the
  end, by a number that bounds the depth of the calls and the rounds of each
  loop.
\<close>

text \<open>
  \<^verbatim>\<open>skipField\<close> of \<^verbatim>\<open>parser.ts\<close>, called after the name of the field has been
  consumed; \<open>skipField_body\<close> is its \<^verbatim>\<open>while\<close> loop and \<open>self\<close> the method itself.
\<close>

fun skipField_body ::
  "(tokenizer \<Rightarrow> unit result) \<Rightarrow> nat \<Rightarrow> tokenizer \<Rightarrow> string \<Rightarrow> unit result" where
  "skipField_body self 0 t endToken = Inl (OutOfFuel, t)"
| \<open>skipField_body self (Suc n) t endToken =
     (case tryConsume endToken t of
        (True, t1) \<Rightarrow> Inr ((), t1)
      | (False, t1) \<Rightarrow>
          if atEnd t1 then Inl (parseError t1 (''Expected "'' @ endToken @ ''"''), t1)
          else (case self t1 of
                  Inl e \<Rightarrow> Inl e
                | Inr (u, t2) \<Rightarrow> skipField_body self n t2 endToken))\<close>

primrec skipField :: "nat \<Rightarrow> tokenizer \<Rightarrow> unit result" where
  "skipField 0 t = Inl (OutOfFuel, t)"
| "skipField (Suc n) t =
     (case tryConsume '':'' t of
        (True, t1) \<Rightarrow>
          (case consumeIdentifierOrNumber t1 of
             Inl e \<Rightarrow> Inl e
           | Inr (s, t2) \<Rightarrow> Inr ((), t2))
      | (False, t1) \<Rightarrow>
          (case open_delimiter t1 of
             Inl e \<Rightarrow> Inl e
           | Inr (endToken, t2) \<Rightarrow> skipField_body (skipField n) n t2 endToken))"

text \<open>
  The value of a map entry in \<^verbatim>\<open>parser.ts\<close>. When \<^verbatim>\<open>lookupType\<close> finds the value
  type, \<^verbatim>\<open>mergeMessageField\<close> is called with a new field that was never resolved:
  it consumes the opening delimiter and then fails on
  \<^verbatim>\<open>field.resolvedType.create()\<close>, the new message having no property \<^verbatim>\<open>value\<close>.
  The \<^verbatim>\<open>catch\<close> takes every exception, also the one of a missing delimiter, and
  goes on with \<^verbatim>\<open>parseScalar\<close> where the tokenizer stands.
\<close>

definition map_value :: "parser \<Rightarrow> tokenizer \<Rightarrow> string \<Rightarrow> scalar result" where
  "map_value p t valueType =
     (case map_of (r_lookupType p) valueType of
        Some resolvedValueType \<Rightarrow>
          (case open_delimiter t of
             Inl (e, t') \<Rightarrow> parseScalar t' valueType
           | Inr (endToken, t') \<Rightarrow> parseScalar t' valueType)
      | None \<Rightarrow> parseScalar t valueType)"

text \<open>The \<^verbatim>\<open>while (true)\<close> loop of \<^verbatim>\<open>mergeMapField\<close>, with \<^verbatim>\<open>key\<close> and \<^verbatim>\<open>value\<close>.\<close>

fun mergeMapField_entries ::
  "nat \<Rightarrow> parser \<Rightarrow> tokenizer \<Rightarrow> field \<Rightarrow> string \<Rightarrow> scalar \<Rightarrow> jsvalue \<Rightarrow> (scalar \<times> jsvalue) result" where
  "mergeMapField_entries 0 p t mapField endToken key val = Inl (OutOfFuel, t)"
| "mergeMapField_entries (Suc n) p t mapField endToken key val =
     (case consumeIdentifier t of
        Inl e \<Rightarrow> Inl e
      | Inr (name, t1) \<Rightarrow>
          (case consume '':'' t1 of
             Inl e \<Rightarrow> Inl e
           | Inr (u, t2) \<Rightarrow>
               (case (if name = ''key'' then
                        (case parseScalar t2 (f_keyType mapField) of
                           Inl e \<Rightarrow> Inl e
                         | Inr (k, t3) \<Rightarrow> Inr ((k, val), t3))
                      else if name = ''value'' then
                        (case map_value p t2 (f_type mapField) of
                           Inl e \<Rightarrow> Inl e
                         | Inr (v, t3) \<Rightarrow> Inr ((key, VScalar v), t3))
                      else Inl (parseError t2 (''Unexpected field in map entry: '' @ name), t2)) of
                  Inl e \<Rightarrow> Inl e
                | Inr ((key', val'), t3) \<Rightarrow>
                    (case tryConsume endToken (snd (tryConsume '','' t3)) of
                       (True, t5) \<Rightarrow> Inr ((key', val'), t5)
                     | (False, t5) \<Rightarrow> mergeMapField_entries n p t5 mapField endToken key' val'))))"

definition mergeMapField ::
  "nat \<Rightarrow> parser \<Rightarrow> tokenizer \<Rightarrow> message \<Rightarrow> field \<Rightarrow> message result" where
  "mergeMapField n p t message fld =
     (case open_delimiter (snd (tryConsume '':'' t)) of
        Inl e \<Rightarrow> Inl e
      | Inr (endToken, t2) \<Rightarrow>
          (case tryConsume endToken t2 of
             (True, t3) \<Rightarrow> Inr (message, t3)
           | (False, t3) \<Rightarrow>
               (case mergeMapField_entries n p t3 fld endToken SUndefined (VScalar SUndefined) of
                  Inl e \<Rightarrow> Inl e
                | Inr ((key, val), t4) \<Rightarrow>
                    (case map_insert message (f_name fld) key val of
                       Inl e \<Rightarrow> Inl (e, t4)
                     | Inr message' \<Rightarrow> Inr (message', t4)))))"

text \<open>The short format of a repeated scalar field, after \<^verbatim>\<open>[\<close> and not at \<^verbatim>\<open>]\<close>.\<close>

fun scalar_list :: "nat \<Rightarrow> tokenizer \<Rightarrow> message \<Rightarrow> field \<Rightarrow> message result" where
  "scalar_list 0 t message fld = Inl (OutOfFuel, t)"
| "scalar_list (Suc n) t message fld =
     (case mergeScalarField t message fld of
        Inl e \<Rightarrow> Inl e
      | Inr (message', t1) \<Rightarrow>
          (case tryConsume '']'' t1 of
             (True, t2) \<Rightarrow> Inr (message', t2)
           | (False, t2) \<Rightarrow>
               (case consume '','' t2 of
                  Inl e \<Rightarrow> Inl e
                | Inr (u, t3) \<Rightarrow> scalar_list n t3 message' fld)))"

text \<open>
  \<^verbatim>\<open>mergeMessageField\<close> of \<^verbatim>\<open>parser.ts\<close>, with its \<^verbatim>\<open>while\<close> loop; \<open>merge\<close>
  stands for \<^verbatim>\<open>this.mergeField\<close>, and \<open>ty\<close> for the message type that
  \<^verbatim>\<open>field.resolvedType\<close> is. Every call in the source passes
  \<^verbatim>\<open>isMapEntry = false\<close>, so that branch is left out. The sub-message of a repeated
  field is appended before it is filled in; the model appends the filled one.
\<close>

fun mergeMessageField_body ::
  "(tokenizer \<Rightarrow> message \<Rightarrow> message result) \<Rightarrow> nat \<Rightarrow> tokenizer \<Rightarrow> message \<Rightarrow> string
   \<Rightarrow> message result" where
  "mergeMessageField_body merge 0 t subMessage endToken = Inl (OutOfFuel, t)"
| \<open>mergeMessageField_body merge (Suc n) t subMessage endToken =
     (case tryConsume endToken t of
        (True, t1) \<Rightarrow> Inr (subMessage, t1)
      | (False, t1) \<Rightarrow>
          if atEnd t1 then Inl (parseError t1 (''Expected "'' @ endToken @ ''"''), t1)
          else (case merge t1 subMessage of
                  Inl e \<Rightarrow> Inl e
                | Inr (subMessage', t2) \<Rightarrow>
                    mergeMessageField_body merge n t2 subMessage' endToken))\<close>

definition mergeMessageField ::
  "(tokenizer \<Rightarrow> message \<Rightarrow> message result) \<Rightarrow> nat \<Rightarrow> tokenizer \<Rightarrow> message \<Rightarrow> field \<Rightarrow> string
   \<Rightarrow> message result" where
  "mergeMessageField merge n t message fld ty =
     (case open_delimiter t of
        Inl e \<Rightarrow> Inl e
      | Inr (endToken, t1) \<Rightarrow>
          if f_repeated fld then
            (case mergeMessageField_body merge n t1 (create ty) endToken of
               Inl e \<Rightarrow> Inl e
             | Inr (subMessage, t2) \<Rightarrow>
                 Inr (push_prop message (f_name fld) (VMessage subMessage), t2))
          else
            (case (if truthy (get_prop message (f_name fld)) then get_prop message (f_name fld)
                   else Some (VMessage (create ty))) of
               Some (VMessage subMessage0) \<Rightarrow>
                 (case mergeMessageField_body merge n t1 subMessage0 endToken of
                    Inl e \<Rightarrow> Inl e
                  | Inr (subMessage, t2) \<Rightarrow>
                      Inr (set_prop message (f_name fld) (VMessage subMessage), t2))
             | _ \<Rightarrow> Inl (Unmodelled, t1)))"

text \<open>
  \<^verbatim>\<open>mergeField\<close> of \<^verbatim>\<open>parser.ts\<close>. A reflection object that is not a field has no
  \<^verbatim>\<open>map\<close>, \<^verbatim>\<open>resolvedType\<close>, \<^verbatim>\<open>repeated\<close> and \<^verbatim>\<open>type\<close>, so it is taken for a
  scalar field of the type \<^verbatim>\<open>undefined\<close>.
\<close>

primrec mergeField :: "nat \<Rightarrow> parser \<Rightarrow> tokenizer \<Rightarrow> message \<Rightarrow> message result" where
  "mergeField 0 p t message = Inl (OutOfFuel, t)"
| \<open>mergeField (Suc n) p t message =
     (case map_of (r_types p) (m_type message) of
        None \<Rightarrow> Inl (Unmodelled, t)
      | Some messageDescriptor \<Rightarrow>
          (case find_field n p t messageDescriptor of
             Inl e \<Rightarrow> Inl e
           | Inr ((NotFound, fieldName), t1) \<Rightarrow>
               if allowUnknownField p then
                 (case skipField n t1 of Inl e \<Rightarrow> Inl e | Inr (u, t2) \<Rightarrow> Inr (message, t2))
               else Inl (parseErrorPreviousToken t1
                           (''Message type "'' @ t_fullName messageDescriptor
                            @ ''" has no field named "'' @ fieldName @ ''".''), t1)
           | Inr ((FoundInherited, fieldName), t1) \<Rightarrow> Inl (JsError ''TypeError'', t1)
           | Inr ((FoundOther, fieldName), t1) \<Rightarrow>
               (case consume '':'' t1 of
                  Inl e \<Rightarrow> Inl e
                | Inr (u, t2) \<Rightarrow>
                    Inl (parseError t2 ''Unknown scalar type: undefined'', t2))
           | Inr ((Found fld, fieldName), t1) \<Rightarrow>
               (case (if f_map fld then mergeMapField n p t1 message fld
                      else
                        (case f_resolvedType fld of
                           Some (REnum enumType) \<Rightarrow>
                             (case consume '':'' t1 of
                                Inl e \<Rightarrow> Inl e
                              | Inr (u, t2) \<Rightarrow> mergeScalarField t2 message fld)
                         | Some (RType ty) \<Rightarrow>
                             mergeMessageField (mergeField n p) n (snd (tryConsume '':'' t1))
                               message fld ty
                         | None \<Rightarrow>
                             (case consume '':'' t1 of
                                Inl e \<Rightarrow> Inl e
                              | Inr (u, t2) \<Rightarrow>
                                  if f_repeated fld \<and> fst (tryConsume ''['' t2) then
                                    (case tryConsume '']'' (snd (tryConsume ''['' t2)) of
                                       (True, t4) \<Rightarrow> Inr (message, t4)
                                     | (False, t4) \<Rightarrow> scalar_list n t4 message fld)
                                  else mergeScalarField t2 message fld))) of
                  Inl e \<Rightarrow> Inl e
                | Inr (message', t5) \<Rightarrow> Inr (message', snd (tryConsume '','' t5)))))\<close>

text \<open>\<^verbatim>\<open>text.split('\n')\<close>\<close>

fun split_lines :: "string \<Rightarrow> string list" where
  "split_lines [] = [[]]"
| "split_lines (c # cs) =
     (if c = CHR 0x0A then [] # split_lines cs
      else (case split_lines cs of l # ls \<Rightarrow> (c # l) # ls | [] \<Rightarrow> [[c]]))"

text \<open>\<^verbatim>\<open>parseLines\<close> with its loop, and \<^verbatim>\<open>parse\<close>.\<close>

fun parseLines_loop :: "nat \<Rightarrow> parser \<Rightarrow> tokenizer \<Rightarrow> message \<Rightarrow> message result" where
  "parseLines_loop 0 p t message = Inl (OutOfFuel, t)"
| "parseLines_loop (Suc n) p t message =
     (if atEnd t then Inr (message, t)
      else (case mergeField n p t message of
              Inl e \<Rightarrow> Inl e
            | Inr (message', t') \<Rightarrow> parseLines_loop n p t' message'))"

definition parseLines :: "nat \<Rightarrow> parser \<Rightarrow> string list \<Rightarrow> message \<Rightarrow> error + message" where
  "parseLines n p ls message = map_sum fst fst (parseLines_loop n p (Tokenizer ls) message)"

definition parse :: "nat \<Rightarrow> parser \<Rightarrow> string \<Rightarrow> message \<Rightarrow> error + message" where
  "parse n p text message = parseLines n p (split_lines text) message"

subsection \<open>The parser of part_000\<close>

definition parseScalar_p0 :: "tokenizer \<Rightarrow> string \<Rightarrow> scalar result" where
  "parseScalar_p0 t type =
     (if type = ''double'' \<or> type = ''float'' then
        map_sum id (\<lambda>(v, t'). (SNumber v, t')) (consumeFloat_p0 t)
      else if type = ''int32'' \<or> type = ''sint32'' \<or> type = ''sfixed32'' then consumeInt32_p0 t
      else if type = ''uint32'' \<or> type = ''fixed32'' then consumeUint32_p0 t
      else if type = ''int64'' \<or> type = ''sint64'' \<or> type = ''sfixed64'' then consumeInt64_p0 t
      else if type = ''uint64'' \<or> type = ''fixed64'' then consumeUint64_p0 t
      else if type = ''bool'' then
        map_sum id (\<lambda>(v, t'). (SBool v, t')) (consumeBool_p0 t)
      else if type = ''string'' then
        map_sum id (\<lambda>(v, t'). (SString v, t')) (consumeString_p0 t)
      else if type = ''bytes'' then
        map_sum id (\<lambda>(v, t'). (SBytes v, t')) (consumeByteString_p0 t)
      else Inl (parseError t (''Unknown scalar type: '' @ type), t))"

text \<open>\<^verbatim>\<open>/^-?(?:0[xX][0-9a-fA-F]+|0[0-7]+|\d+)$/\<close>\<close>

definition is_any_base_int :: "string \<Rightarrow> bool" where
  "is_any_base_int s =
     (let r = (if s \<noteq> [] \<and> hd s = CHR ''-'' then tl s else s)
      in ((take 2 r = ''0x'' \<or> take 2 r = ''0X'') \<and> drop 2 r \<noteq> []
            \<and> list_all (is_radix_digit 16) (drop 2 r))
         \<or> (r \<noteq> [] \<and> hd r = CHR ''0'' \<and> tl r \<noteq> [] \<and> list_all (is_radix_digit 8) (tl r))
         \<or> (r \<noteq> [] \<and> list_all is_digit r))"

definition enum_by_name :: "enumtype \<Rightarrow> string \<Rightarrow> error + scalar" where
  \<open>enum_by_name enumType v =
     (case js_get (e_values enumType) v of
        Own n \<Rightarrow> Inr (SNumber (Fin (of_int n)))
      | Absent \<Rightarrow>
          Inl (ParseError (''Enum type "'' @ e_name enumType @ ''" has no value named '' @ v @ ''.'')
                 None None)
      | Inherited \<Rightarrow> Inl Unmodelled)\<close>

definition parseEnum_p0 :: "enumtype \<Rightarrow> string \<Rightarrow> error + scalar" where
  "parseEnum_p0 enumType v =
     (if is_any_base_int v then
        (case parseInteger_p0 v CNumber of
           Inr num \<Rightarrow> Inr num
         | Inl e \<Rightarrow> enum_by_name enumType v)
      else enum_by_name enumType v)"

definition mergeScalarField_p0 :: "tokenizer \<Rightarrow> message \<Rightarrow> field \<Rightarrow> message result" where
  "mergeScalarField_p0 t message fld =
     (let r = (case f_resolvedType fld of
                 Some (REnum enumType) \<Rightarrow>
                   (case (if is_any_base_int (token t) then Inr (token t, nextToken t)
                          else consumeIdentifierOrNumber t) of
                      Inl e \<Rightarrow> Inl e
                    | Inr (enumValueStr, t') \<Rightarrow>
                        (case parseEnum_p0 enumType enumValueStr of
                           Inl e \<Rightarrow> Inl (e, t')
                         | Inr v \<Rightarrow> Inr (v, t')))
               | _ \<Rightarrow> parseScalar_p0 t (f_type fld))
      in case r of
           Inl e \<Rightarrow> Inl e
         | Inr (v, t') \<Rightarrow>
             if f_repeated fld then Inr (push_prop message (f_name fld) (VScalar v), t')
             else Inr (set_prop message (f_name fld) (VScalar v), t'))"

text \<open>
  \<^verbatim>\<open>parseList(tokenizer, message, field, parseItem)\<close>, called after \<^verbatim>\<open>[\<close>; the
  callback gets the tokenizer and the message it closes over.
\<close>

fun parseList_items ::
  "nat \<Rightarrow> tokenizer \<Rightarrow> message \<Rightarrow> (tokenizer \<Rightarrow> message \<Rightarrow> message result) \<Rightarrow> message result" where
  "parseList_items 0 t message parseItem = Inl (OutOfFuel, t)"
| "parseList_items (Suc n) t message parseItem =
     (case parseItem t message of
        Inl e \<Rightarrow> Inl e
      | Inr (message', t1) \<Rightarrow>
          (case tryConsume '']'' t1 of
             (True, t2) \<Rightarrow> Inr (message', t2)
           | (False, t2) \<Rightarrow>
               (case consume '','' t2 of
                  Inl e \<Rightarrow> Inl e
                | Inr (u, t3) \<Rightarrow> parseList_items n t3 message' parseItem)))"

definition parseList ::
  "nat \<Rightarrow> tokenizer \<Rightarrow> message \<Rightarrow> (tokenizer \<Rightarrow> message \<Rightarrow> message result) \<Rightarrow> message result" where
  "parseList n t message parseItem =
     (case tryConsume '']'' t of
        (True, t1) \<Rightarrow> Inr (message, t1)
      | (False, t1) \<Rightarrow> parseList_items n t1 message parseItem)"

text \<open>\<^verbatim>\<open>if (!Array.isArray(message[field.name])) message[field.name] = []\<close>\<close>

definition ensure_array :: "message \<Rightarrow> string \<Rightarrow> message" where
  "ensure_array m k =
     (case get_prop m k of Some (VArray xs) \<Rightarrow> m | _ \<Rightarrow> set_prop m k (VArray []))"

text \<open>
  Skipping an unknown field in \<^verbatim>\<open>part_000\<close>: \<^verbatim>\<open>skipFieldValue\<close>,
  \<^verbatim>\<open>skipFieldMessage\<close> and \<^verbatim>\<open>skipRepeatedFieldValue\<close> with their loops,
  \<^verbatim>\<open>skipFieldContents\<close> and \<^verbatim>\<open>skipField\<close>. In the first four \<open>skip\<close> stands
  for \<^verbatim>\<open>this.skipField\<close>; in the definitions after them \<open>merge\<close> stands for
  \<^verbatim>\<open>this.mergeField\<close>.
\<close>

definition skipFieldValue_p0 :: "tokenizer \<Rightarrow> unit result" where
  "skipFieldValue_p0 t =
     (case tryConsumeAnyScalar_p0 t of
        (True, t') \<Rightarrow> Inr ((), t')
      | (False, t') \<Rightarrow> Inl (parseError t' (''Invalid field value: '' @ token t'), t'))"

fun skipFieldMessage_loop ::
  "(tokenizer \<Rightarrow> unit result) \<Rightarrow> nat \<Rightarrow> tokenizer \<Rightarrow> string \<Rightarrow> unit result" where
  "skipFieldMessage_loop skip 0 t delimiter = Inl (OutOfFuel, t)"
| "skipFieldMessage_loop skip (Suc n) t delimiter =
     (if \<not> lookingAt ''>'' t \<and> \<not> lookingAt ''}'' t then
        (case skip t of
           Inl e \<Rightarrow> Inl e
         | Inr (u, t1) \<Rightarrow> skipFieldMessage_loop skip n t1 delimiter)
      else consume delimiter t)"

definition skipFieldMessage_p0 ::
  "(tokenizer \<Rightarrow> unit result) \<Rightarrow> nat \<Rightarrow> tokenizer \<Rightarrow> unit result" where
  "skipFieldMessage_p0 skip n t =
     (case open_delimiter t of
        Inl e \<Rightarrow> Inl e
      | Inr (delimiter, t1) \<Rightarrow> skipFieldMessage_loop skip n t1 delimiter)"

fun skipRepeatedFieldValue_loop ::
  "(tokenizer \<Rightarrow> unit result) \<Rightarrow> nat \<Rightarrow> nat \<Rightarrow> tokenizer \<Rightarrow> unit result" where
  "skipRepeatedFieldValue_loop skip n 0 t = Inl (OutOfFuel, t)"
| "skipRepeatedFieldValue_loop skip n (Suc k) t =
     (case (if lookingAt ''<'' t \<or> lookingAt ''{'' t then skipFieldMessage_p0 skip n t
            else skipFieldValue_p0 t) of
        Inl e \<Rightarrow> Inl e
      | Inr (u, t1) \<Rightarrow>
          (case tryConsume '']'' t1 of
             (True, t2) \<Rightarrow> Inr ((), t2)
           | (False, t2) \<Rightarrow>
               (case consume '','' t2 of
                  Inl e \<Rightarrow> Inl e
                | Inr (u, t3) \<Rightarrow> skipRepeatedFieldValue_loop skip n k t3)))"

definition skipRepeatedFieldValue_p0 ::
  "(tokenizer \<Rightarrow> unit result) \<Rightarrow> nat \<Rightarrow> tokenizer \<Rightarrow> unit result" where
  "skipRepeatedFieldValue_p0 skip n t =
     (case consume ''['' t of
        Inl e \<Rightarrow> Inl e
      | Inr (u, t1) \<Rightarrow>
          (case tryConsume '']'' t1 of
             (True, t2) \<Rightarrow> Inr ((), t2)
           | (False, t2) \<Rightarrow> skipRepeatedFieldValue_loop skip n n t2))"

definition skipFieldContents_with ::
  "(tokenizer \<Rightarrow> unit result) \<Rightarrow> nat \<Rightarrow> tokenizer \<Rightarrow> unit result" where
  "skipFieldContents_with skip n t =
     (case tryConsume '':'' t of
        (b, t1) \<Rightarrow>
          if b \<and> \<not> lookingAt ''{'' t1 \<and> \<not> lookingAt ''<'' t1 then
            (if lookingAt ''['' t1 then skipRepeatedFieldValue_p0 skip n t1
             else skipFieldValue_p0 t1)
          else skipFieldMessage_p0 skip n t1)"

primrec skipField_p0 :: "nat \<Rightarrow> tokenizer \<Rightarrow> unit result" where
  "skipField_p0 0 t = Inl (OutOfFuel, t)"
| "skipField_p0 (Suc n) t =
     (case (case tryConsume ''['' t of
              (True, t1) \<Rightarrow>
                (case consumeIdentifier t1 of
                   Inl e \<Rightarrow> Inl e
                 | Inr (first, t2) \<Rightarrow>
                     (case extension_name n t2 first of
                        Inl e \<Rightarrow> Inl e
                      | Inr (name, t3) \<Rightarrow> consume '']'' t3))
            | (False, t1) \<Rightarrow>
                (case consumeIdentifierOrNumber t1 of
                   Inl e \<Rightarrow> Inl e
                 | Inr (name, t2) \<Rightarrow> Inr ((), t2))) of
        Inl e \<Rightarrow> Inl e
      | Inr (u, t4) \<Rightarrow>
          (case skipFieldContents_with (skipField_p0 n) n t4 of
             Inl e \<Rightarrow> Inl e
           | Inr (u, t5) \<Rightarrow>
               (case tryConsume '','' t5 of
                  (True, t6) \<Rightarrow> Inr ((), t6)
                | (False, t6) \<Rightarrow> Inr ((), snd (tryConsume '';'' t6)))))"

definition skipFieldContents_p0 :: "nat \<Rightarrow> tokenizer \<Rightarrow> unit result" where
  "skipFieldContents_p0 n t = skipFieldContents_with (skipField_p0 n) n t"

text \<open>
  What the \<^verbatim>\<open>catch\<close> in \<^verbatim>\<open>mergeMapFieldEntry\<close> does with the tokenizer where the
  exception left it: the value is a scalar after all.
\<close>

definition map_value_scalar_p0 :: "tokenizer \<Rightarrow> string \<Rightarrow> jsvalue result" where
  "map_value_scalar_p0 t valueType =
     (case consume '':'' t of
        Inl e \<Rightarrow> Inl e
      | Inr (u, t1) \<Rightarrow> map_sum id (\<lambda>(v, t'). (VScalar v, t')) (parseScalar_p0 t1 valueType))"

text \<open>Whether an error is a JavaScript exception, which the \<^verbatim>\<open>catch\<close> takes.\<close>

definition is_exception :: "error \<Rightarrow> bool" where
  "is_exception e = (case e of ParseError m l c \<Rightarrow> True | JsError m \<Rightarrow> True | _ \<Rightarrow> False)"

text \<open>
  \<^verbatim>\<open>mergeMessageField\<close> of \<^verbatim>\<open>part_000\<close>, which has no \<^verbatim>\<open>isMapEntry\<close>: the same
  steps as in \<^verbatim>\<open>parser.ts\<close>.
\<close>

definition mergeMessageField_p0 ::
  "(tokenizer \<Rightarrow> message \<Rightarrow> message result) \<Rightarrow> nat \<Rightarrow> tokenizer \<Rightarrow> message \<Rightarrow> field \<Rightarrow> string
   \<Rightarrow> message result" where
  "mergeMessageField_p0 = mergeMessageField"

text \<open>
  The loop over a message-typed map value,
  \<^verbatim>\<open>while (!tokenizer.tryConsume(messageEndToken)) this.mergeField(tokenizer, subMessage)\<close>.
\<close>

fun map_value_body_p0 ::
  "(tokenizer \<Rightarrow> message \<Rightarrow> message result) \<Rightarrow> nat \<Rightarrow> tokenizer \<Rightarrow> message \<Rightarrow> string
   \<Rightarrow> message result" where
  "map_value_body_p0 merge 0 t subMessage messageEndToken = Inl (OutOfFuel, t)"
| "map_value_body_p0 merge (Suc n) t subMessage messageEndToken =
     (case tryConsume messageEndToken t of
        (True, t1) \<Rightarrow> Inr (subMessage, t1)
      | (False, t1) \<Rightarrow>
          (case merge t1 subMessage of
             Inl e \<Rightarrow> Inl e
           | Inr (subMessage', t2) \<Rightarrow>
               map_value_body_p0 merge n t2 subMessage' messageEndToken))"

text \<open>
  The value of a map entry in \<^verbatim>\<open>part_000\<close>: a message when \<^verbatim>\<open>lookupType\<close> finds
  the value type, and a scalar when anything in the \<^verbatim>\<open>try\<close> block throws.
\<close>

definition map_value_p0 ::
  "(tokenizer \<Rightarrow> message \<Rightarrow> message result) \<Rightarrow> nat \<Rightarrow> parser \<Rightarrow> tokenizer \<Rightarrow> string
   \<Rightarrow> jsvalue result" where
  "map_value_p0 merge n p t valueType =
     (case map_of (r_lookupType p) valueType of
        None \<Rightarrow> map_value_scalar_p0 t valueType
      | Some ty \<Rightarrow>
          (case open_delimiter (snd (tryConsume '':'' t)) of
             Inl (e, te) \<Rightarrow> map_value_scalar_p0 te valueType
           | Inr (messageEndToken, t2) \<Rightarrow>
               (case map_value_body_p0 merge n t2 (create ty) messageEndToken of
                  Inl (e, te) \<Rightarrow>
                    if is_exception e then map_value_scalar_p0 te valueType else Inl (e, te)
                | Inr (subMessage, t3) \<Rightarrow> Inr (VMessage subMessage, t3))))"

text \<open>\<^verbatim>\<open>mergeMapFieldEntry\<close> of \<^verbatim>\<open>part_000\<close> and its \<^verbatim>\<open>while (true)\<close> loop.\<close>

fun mergeMapFieldEntry_loop ::
  "(tokenizer \<Rightarrow> message \<Rightarrow> message result) \<Rightarrow> nat \<Rightarrow> nat \<Rightarrow> parser \<Rightarrow> tokenizer \<Rightarrow> field
   \<Rightarrow> string \<Rightarrow> scalar \<Rightarrow> jsvalue \<Rightarrow> (scalar \<times> jsvalue) result" where
  "mergeMapFieldEntry_loop merge n 0 p t mapField endToken key val = Inl (OutOfFuel, t)"
| "mergeMapFieldEntry_loop merge n (Suc k) p t mapField endToken key val =
     (case consumeIdentifier t of
        Inl e \<Rightarrow> Inl e
      | Inr (name, t1) \<Rightarrow>
          (case (if name = ''key'' then
                   (case consume '':'' t1 of
                      Inl e \<Rightarrow> Inl e
                    | Inr (u, t2) \<Rightarrow>
                        (case parseScalar_p0 t2 (f_keyType mapField) of
                           Inl e \<Rightarrow> Inl e
                         | Inr (k', t3) \<Rightarrow> Inr ((k', val), t3)))
                 else if name = ''value'' then
                   (case map_value_p0 merge n p t1 (f_type mapField) of
                      Inl e \<Rightarrow> Inl e
                    | Inr (v, t3) \<Rightarrow> Inr ((key, v), t3))
                 else Inl (parseError t1 (''Unexpected field in map entry: '' @ name), t1)) of
             Inl e \<Rightarrow> Inl e
           | Inr ((key', val'), t3) \<Rightarrow>
               (case tryConsume endToken (snd (tryConsume '','' t3)) of
                  (True, t5) \<Rightarrow> Inr ((key', val'), t5)
                | (False, t5) \<Rightarrow>
                    mergeMapFieldEntry_loop merge n k p t5 mapField endToken key' val')))"

definition mergeMapFieldEntry_p0 ::
  "(tokenizer \<Rightarrow> message \<Rightarrow> message result) \<Rightarrow> nat \<Rightarrow> parser \<Rightarrow> tokenizer \<Rightarrow> message \<Rightarrow> field
   \<Rightarrow> message result" where
  "mergeMapFieldEntry_p0 merge n p t message fld =
     (case open_delimiter t of
        Inl e \<Rightarrow> Inl e
      | Inr (endToken, t1) \<Rightarrow>
          (case tryConsume endToken t1 of
             (True, t2) \<Rightarrow> Inr (message, t2)
           | (False, t2) \<Rightarrow>
               (case mergeMapFieldEntry_loop merge n n p t2 fld endToken
                       SUndefined (VScalar SUndefined) of
                  Inl e \<Rightarrow> Inl e
                | Inr ((key, val), t3) \<Rightarrow>
                    (case map_insert message (f_name fld) key val of
                       Inl e \<Rightarrow> Inl (e, t3)
                     | Inr message' \<Rightarrow> Inr (message', t3)))))"

text \<open>\<^verbatim>\<open>mergeField\<close> of \<^verbatim>\<open>part_000\<close>.\<close>

primrec mergeField_p0 :: "nat \<Rightarrow> parser \<Rightarrow> tokenizer \<Rightarrow> message \<Rightarrow> message result" where
  "mergeField_p0 0 p t message = Inl (OutOfFuel, t)"
| \<open>mergeField_p0 (Suc n) p t message =
     (case map_of (r_types p) (m_type message) of
        None \<Rightarrow> Inl (Unmodelled, t)
      | Some messageDescriptor \<Rightarrow>
          (case find_field n p t messageDescriptor of
             Inl e \<Rightarrow> Inl e
           | Inr ((NotFound, fieldName), t1) \<Rightarrow>
               if allowUnknownField p then
                 (case skipFieldContents_p0 n t1 of
                    Inl e \<Rightarrow> Inl e
                  | Inr (u, t2) \<Rightarrow> Inr (message, t2))
               else Inl (parseErrorPreviousToken t1
                           (''Message type "'' @ t_fullName messageDescriptor
                            @ ''" has no field named "'' @ fieldName @ ''".''), t1)
           | Inr ((FoundInherited, fieldName), t1) \<Rightarrow> Inl (JsError ''TypeError'', t1)
           | Inr ((FoundOther, fieldName), t1) \<Rightarrow>
               (case consume '':'' t1 of
                  Inl e \<Rightarrow> Inl e
                | Inr (u, t2) \<Rightarrow>
                    Inl (parseError t2 ''Unknown scalar type: undefined'', t2))
           | Inr ((Found fld, fieldName), t1) \<Rightarrow>
               (case (if f_map fld then
                        (case tryConsume ''['' (snd (tryConsume '':'' t1)) of
                           (True, t3) \<Rightarrow>
                             parseList n t3 message
                               (\<lambda>t m. mergeMapFieldEntry_p0 (mergeField_p0 n p) n p t m fld)
                         | (False, t3) \<Rightarrow>
                             mergeMapFieldEntry_p0 (mergeField_p0 n p) n p t3 message fld)
                      else
                        (case f_resolvedType fld of
                           Some (REnum enumType) \<Rightarrow>
                             (case consume '':'' t1 of
                                Inl e \<Rightarrow> Inl e
                              | Inr (u, t2) \<Rightarrow>
                                  if f_repeated fld \<and> fst (tryConsume ''['' t2) then
                                    parseList n (snd (tryConsume ''['' t2))
                                      (ensure_array message (f_name fld))
                                      (\<lambda>t m. mergeScalarField_p0 t m fld)
                                  else mergeScalarField_p0 t2 message fld)
                         | Some (RType ty) \<Rightarrow>
                             (case tryConsume '':'' t1 of
                                (b, t2) \<Rightarrow>
                                  if f_repeated fld \<and> fst (tryConsume ''['' t2) then
                                    parseList n (snd (tryConsume ''['' t2))
                                      (ensure_array message (f_name fld))
                                      (\<lambda>t m. mergeMessageField_p0 (mergeField_p0 n p) n t m fld ty)
                                  else mergeMessageField_p0 (mergeField_p0 n p) n t2 message fld ty)
                         | None \<Rightarrow>
                             (case consume '':'' t1 of
                                Inl e \<Rightarrow> Inl e
                              | Inr (u, t2) \<Rightarrow>
                                  if f_repeated fld \<and> fst (tryConsume ''['' t2) then
                                    parseList n (snd (tryConsume ''['' t2))
                                      (ensure_array message (f_name fld))
                                      (\<lambda>t m. mergeScalarField_p0 t m fld)
                                  else mergeScalarField_p0 t2 message fld))) of
                  Inl e \<Rightarrow> Inl e
                | Inr (message', t5) \<Rightarrow> Inr (message', snd (tryConsume '','' t5)))))\<close>

fun parseLines_loop_p0 :: "nat \<Rightarrow> parser \<Rightarrow> tokenizer \<Rightarrow> message \<Rightarrow> message result" where
  "parseLines_loop_p0 0 p t message = Inl (OutOfFuel, t)"
| "parseLines_loop_p0 (Suc n) p t message =
     (if atEnd t then Inr (message, t)
      else (case mergeField_p0 n p t message of
              Inl e \<Rightarrow> Inl e
            | Inr (message', t') \<Rightarrow> parseLines_loop_p0 n p t' message'))"

definition parseLines_p0 :: "nat \<Rightarrow> parser \<Rightarrow> string list \<Rightarrow> message \<Rightarrow> error + message" where
  "parseLines_p0 n p ls message = map_sum fst fst (parseLines_loop_p0 n p (Tokenizer ls) message)"

definition parse_p0 :: "nat \<Rightarrow> parser \<Rightarrow> string \<Rightarrow> message \<Rightarrow> error + message" where
  "parse_p0 n p text message = parseLines_p0 n p (split_lines text) message"

subsection \<open>A schema for the examples\<close>

text \<open>
  A message type with a field of each shape the examples need, as protobuf.js
  presents it: fields are listed under their camel-case names, a map field has
  its value type in \<^verbatim>\<open>type\<close> and its key type in \<^verbatim>\<open>keyType\<close>.
\<close>

definition scalar_field :: "string \<Rightarrow> int \<Rightarrow> string \<Rightarrow> bool \<Rightarrow> field" where
  "scalar_field name n ty rep =
     \<lparr>f_name = name, f_id = n, f_type = ty, f_repeated = rep, f_map = False, f_keyType = [],
      f_resolvedType = None, f_parent = ''.test.TestMessage''\<rparr>"

definition TestEnum :: enumtype where
  "TestEnum = \<lparr>e_name = ''TestEnum'',
     e_values = [(''ENUM_VALUE_ZERO'', 0), (''ENUM_VALUE_ONE'', 1), (''ENUM_VALUE_TWO'', 2)]\<rparr>"

definition TestMessage :: mtype where
  "TestMessage = \<lparr>t_fullName = ''.test.TestMessage'',
     t_fields =
       [(''stringField'', scalar_field ''stringField'' 1 ''string'' False),
        (''int32Field'', scalar_field ''int32Field'' 2 ''int32'' False),
        (''bytesField'', scalar_field ''bytesField'' 3 ''bytes'' False),
        (''repeatedString'', scalar_field ''repeatedString'' 4 ''string'' True),
        (''enumField'', (scalar_field ''enumField'' 5 ''TestEnum'' False)\<lparr>f_resolvedType := Some (REnum TestEnum)\<rparr>),
        (''repeatedEnum'', (scalar_field ''repeatedEnum'' 6 ''TestEnum'' True)\<lparr>f_resolvedType := Some (REnum TestEnum)\<rparr>),
        (''nestedMessage'', (scalar_field ''nestedMessage'' 7 ''NestedMessage'' False)\<lparr>f_resolvedType := Some (RType ''.test.NestedMessage'')\<rparr>),
        (''stringIntMap'', (scalar_field ''stringIntMap'' 8 ''int32'' False)\<lparr>f_map := True, f_keyType := ''string''\<rparr>)]\<rparr>"

definition NestedMessage :: mtype where
  "NestedMessage = \<lparr>t_fullName = ''.test.NestedMessage'',
     t_fields =
       [(''value'', (scalar_field ''value'' 1 ''string'' False)\<lparr>f_parent := ''.test.NestedMessage''\<rparr>),
        (''number'', (scalar_field ''number'' 2 ''int32'' False)\<lparr>f_parent := ''.test.NestedMessage''\<rparr>)]\<rparr>"

definition test_parser :: "bool \<Rightarrow> parser" where
  "test_parser unk = \<lparr>allowUnknownExtension = False, allowFieldNumber = False, descriptorPool = [],
     allowUnknownField = unk,
     r_types = [(''.test.TestMessage'', TestMessage), (''.test.NestedMessage'', NestedMessage)],
     r_lookupType = [(''test.NestedMessage'', ''.test.NestedMessage'')]\<rparr>"


subsection \<open>Notions for stating the properties\<close>

text \<open>The result of an operation without the tokenizer it leaves.\<close>

definition outcome :: "'a result \<Rightarrow> error + 'a" where
  "outcome r = map_sum fst fst r"

text \<open>The value a map field holds under a key, given in its string form.\<close>

definition map_entry :: "message \<Rightarrow> string \<Rightarrow> int list \<Rightarrow> jsvalue option" where
  "map_entry m name ks =
     (case get_prop m name of Some (VObject kvs) \<Rightarrow> map_of kvs ks | _ \<Rightarrow> None)"

text \<open>A backslash, and a depth that is enough for the examples.\<close>

definition bs :: string where
  "bs = [CHR 0x5C]"

definition depth :: nat where
  "depth = Suc (Suc (Suc (Suc (Suc (Suc 0)))))"

text \<open>
  A message that holds two entries in its map field, one more entry as text,
  and the message after that entry has been merged.
\<close>

definition map_example_message :: message where
  "map_example_message =
     Message ''.test.TestMessage''
       [(''stringIntMap'',
         VObject [(units ''k1'', VScalar (SNumber (Fin 1))),
                  (units ''k2'', VScalar (SNumber (Fin 2)))])]"

definition map_example_field :: field where
  "map_example_field =
     (scalar_field ''stringIntMap'' 8 ''int32'' False)\<lparr>f_map := True, f_keyType := ''string''\<rparr>"

definition map_example_tokenizer :: tokenizer where
  \<open>map_example_tokenizer = Tokenizer [''{ key: "k1" value: 9 }'']\<close>

definition map_example_result :: message where
  "map_example_result =
     Message ''.test.TestMessage''
       [(''stringIntMap'',
         VObject [(units ''k1'', VScalar (SNumber (Fin 9))),
                  (units ''k2'', VScalar (SNumber (Fin 2)))])]"

text \<open>The tokenizer after the eight tokens of the entry.\<close>

definition map_example_end :: tokenizer where
  "map_example_end =
     nextToken (nextToken (nextToken (nextToken (nextToken (nextToken (nextToken (nextToken
       map_example_tokenizer)))))))"





section \<open>Properties\<close>

subsection \<open>Token positions\<close>

lemma pos_le_refl: "pos_le p p"
  by (simp add: pos_le_def)

lemma pos_le_trans: "pos_le p q \<Longrightarrow> pos_le q r \<Longrightarrow> pos_le p r"
  by (auto simp: pos_le_def)

lemma popLine_pos: "pos_le (pos t) (pos (popLine t))"
proof (induction t rule: popLine.induct)
  case (1 t)
  show ?case
  proof (cases "p_current_line t = [] \<or> length (p_current_line t) \<le> p_column t")
    case True
    show ?thesis
    proof (cases "p_lines t")
      case Nil
      with True show ?thesis by (simp add: popLine_empty pos_le_def pos_def)
    next
      case (Cons l ls)
      let ?t' = "t\<lparr>p_current_line := l, p_lines := ls, p_line := p_line t + 1, p_column := 0\<rparr>"
      from True Cons 1 have "pos_le (pos ?t') (pos (popLine t))"
        by (simp add: popLine_step)
      moreover have "pos_le (pos t) (pos ?t')"
        by (simp add: pos_le_def pos_def)
      ultimately show ?thesis by (rule pos_le_trans [rotated])
    qed
  next
    case False
    then show ?thesis by (simp add: popLine_stop pos_le_refl)
  qed
qed

lemma skipWhitespace_pos: "pos_le (pos t) (pos (skipWhitespace t))"
proof (induction t rule: skipWhitespace.induct)
  case (1 t)
  let ?t1 = "popLine t"
  let ?n = "ws_len (drop (p_column ?t1) (p_current_line ?t1))"
  show ?case
  proof (cases "p_more_lines ?t1 \<and> 0 < ?n")
    case True
    then have eq: "skipWhitespace t = skipWhitespace (?t1\<lparr>p_column := p_column ?t1 + ?n\<rparr>)"
      by (subst skipWhitespace.simps) simp
    have "pos_le (pos ?t1) (pos (?t1\<lparr>p_column := p_column ?t1 + ?n\<rparr>))"
      by (simp add: pos_le_def pos_def)
    moreover have "pos_le (pos (?t1\<lparr>p_column := p_column ?t1 + ?n\<rparr>)) (pos (skipWhitespace t))"
      using True 1 eq by simp
    ultimately show ?thesis
      using popLine_pos [of t] by (blast intro: pos_le_trans)
  next
    case False
    then have "skipWhitespace t = ?t1"
      by (subst skipWhitespace.simps) auto
    then show ?thesis by (simp add: popLine_pos)
  qed
qed

lemma nextToken_pos: "pos_le (pos t) (pos (nextToken t))"
proof -
  let ?t0 = "t\<lparr>p_previous_line := p_line t, p_previous_column := p_column t,
                p_column := p_column t + length (token t)\<rparr>"
  have a: "pos_le (pos t) (pos ?t0)" by (simp add: pos_le_def pos_def)
  have b: "pos (nextToken t) = pos (skipWhitespace ?t0)"
    by (simp add: nextToken_def Let_def pos_def split: option.splits)
  from a skipWhitespace_pos [of ?t0] b show ?thesis
    by (auto intro: pos_le_trans)
qed

lemma nextToken_previous:
  "(p_previous_line (nextToken t), p_previous_column (nextToken t)) = pos t"
proof -
  have keep: "p_previous_line (popLine u) = p_previous_line u
      \<and> p_previous_column (popLine u) = p_previous_column u" for u
  proof (induction u rule: popLine.induct)
    case (1 u)
    show ?case
    proof (cases "p_current_line u = [] \<or> length (p_current_line u) \<le> p_column u")
      case True
      then show ?thesis using 1 by (cases "p_lines u") (simp_all add: popLine_empty popLine_step)
    next
      case False
      then show ?thesis by (simp add: popLine_stop)
    qed
  qed
  have skip: "p_previous_line (skipWhitespace u) = p_previous_line u
      \<and> p_previous_column (skipWhitespace u) = p_previous_column u" for u
  proof (induction u rule: skipWhitespace.induct)
    case (1 u)
    let ?u1 = "popLine u"
    let ?n = "ws_len (drop (p_column ?u1) (p_current_line ?u1))"
    show ?case
    proof (cases "p_more_lines ?u1 \<and> 0 < ?n")
      case True
      then have "skipWhitespace u = skipWhitespace (?u1\<lparr>p_column := p_column ?u1 + ?n\<rparr>)"
        by (subst skipWhitespace.simps) simp
      with True 1 keep [of u] show ?thesis by simp
    next
      case False
      then have "skipWhitespace u = ?u1"
        by (subst skipWhitespace.simps) auto
      with keep [of u] show ?thesis by simp
    qed
  qed
  show ?thesis
    by (simp add: nextToken_def Let_def pos_def skip split: option.splits)
qed

text \<open>
  C9. Over any run of \<^verbatim>\<open>nextToken\<close> calls, from any state of a tokenizer, the
  position where a token starts is at or after the position where every
  earlier token started, in the lexicographic order on (line, column); and the
  position that \<^verbatim>\<open>nextToken\<close> records as the previous one is where the token
  before started.
\<close>

theorem token_positions_monotone:
  "pos_le (pos ((nextToken ^^ i) t)) (pos ((nextToken ^^ (i + k)) t))
   \<and> (p_previous_line (nextToken t), p_previous_column (nextToken t)) = pos t
   \<and> pos_le (p_previous_line (nextToken t), p_previous_column (nextToken t)) (pos (nextToken t))"
proof -
  have "pos_le (pos ((nextToken ^^ i) t)) (pos ((nextToken ^^ (i + k)) t))"
  proof (induction k)
    case 0
    show ?case by (simp add: pos_le_refl)
  next
    case (Suc k)
    have "pos_le (pos ((nextToken ^^ (i + k)) t)) (pos ((nextToken ^^ (i + Suc k)) t))"
      by (simp add: nextToken_pos)
    with Suc show ?case by (rule pos_le_trans)
  qed
  then show ?thesis
    by (simp add: nextToken_previous nextToken_pos)
qed

subsection \<open>Integer tokens\<close>

text \<open>
  C1. In \<^verbatim>\<open>parser.ts\<close> the 32-bit operations read every token in base 10 and the
  64-bit operations hand it to \<^verbatim>\<open>BigInt\<close>: \<^verbatim>\<open>042\<close> gives 42 and not 34, \<^verbatim>\<open>0x2A\<close> gives
  0 for a 32-bit field, \<^verbatim>\<open>-0x2A\<close> gives 0 for a 32-bit field and an error for a
  64-bit field. In \<^verbatim>\<open>part_000\<close> the same tokens give 34, 42 and -42, and \<^verbatim>\<open>42\<close>
  gives 42, as the specification says.
\<close>

theorem integer_base_not_detected:
  \<open>outcome (consumeInt32 (Tokenizer [''042''])) = Inr (Fin 42)
   \<and> outcome (consumeInt32 (Tokenizer [''0x2A''])) = Inr (Fin 0)
   \<and> outcome (consumeInt32 (Tokenizer [''-0x2A''])) = Inr (Fin 0)
   \<and> outcome (consumeInt32 (Tokenizer [''42''])) = Inr (Fin 42)
   \<and> outcome (consumeUint32 (Tokenizer [''042''])) = Inr (Fin 42)
   \<and> outcome (consumeUint32 (Tokenizer [''0x2A''])) = Inr (Fin 0)
   \<and> outcome (consumeInt64 (Tokenizer [''042''])) = Inr 42
   \<and> outcome (consumeInt64 (Tokenizer [''0x2A''])) = Inr 42
   \<and> outcome (consumeInt64 (Tokenizer [''-0x2A'']))
       = Inl (ParseError ''Couldn't parse integer: -0x2A'' (Some 1) (Some 1))
   \<and> outcome (consumeUint64 (Tokenizer [''042''])) = Inr 42
   \<and> parse depth (test_parser False) ''int32_field: 042'' (create ''.test.TestMessage'')
       = Inr (Message ''.test.TestMessage'' [(''int32Field'', VScalar (SNumber (Fin 42)))])
   \<and> outcome (consumeInt32_p0 (Tokenizer [''042''])) = Inr (SNumber (Fin 34))
   \<and> outcome (consumeInt32_p0 (Tokenizer [''0x2A''])) = Inr (SNumber (Fin 42))
   \<and> outcome (consumeInt32_p0 (Tokenizer [''-0x2A''])) = Inr (SNumber (Fin (- 42)))
   \<and> outcome (consumeInt32_p0 (Tokenizer [''42''])) = Inr (SNumber (Fin 42))
   \<and> outcome (consumeUint32_p0 (Tokenizer [''042''])) = Inr (SNumber (Fin 34))
   \<and> outcome (consumeInt64_p0 (Tokenizer [''042''])) = Inr (SBigInt 34)
   \<and> outcome (consumeInt64_p0 (Tokenizer [''0x2A''])) = Inr (SBigInt 42)
   \<and> outcome (consumeInt64_p0 (Tokenizer [''-0x2A''])) = Inr (SBigInt (- 42))
   \<and> outcome (consumeUint64_p0 (Tokenizer [''42''])) = Inr (SBigInt 42)
   \<and> parse_p0 depth (test_parser False) ''int32_field: 042'' (create ''.test.TestMessage'')
       = Inr (Message ''.test.TestMessage'' [(''int32Field'', VScalar (SNumber (Fin 34)))])\<close>
  by code_simp

text \<open>
  C2. Neither revision checks the range: tokens outside the signed or unsigned
  32-bit domain, and outside the 64-bit domains, are returned as values. The
  error \<^verbatim>\<open>Couldn't parse integer\<close>, at the position of the token, is raised for
  a token that is no number.
\<close>

theorem integer_range_not_checked:
  \<open>outcome (consumeInt32 (Tokenizer [''2147483648''])) = Inr (Fin 2147483648)
   \<and> outcome (consumeInt32 (Tokenizer [''-2147483649''])) = Inr (Fin (- 2147483649))
   \<and> outcome (consumeUint32 (Tokenizer [''4294967296''])) = Inr (Fin 4294967296)
   \<and> outcome (consumeUint32 (Tokenizer [''-1''])) = Inr (Fin (- 1))
   \<and> outcome (consumeInt64 (Tokenizer [''9223372036854775808''])) = Inr 9223372036854775808
   \<and> outcome (consumeUint64 (Tokenizer [''18446744073709551616''])) = Inr 18446744073709551616
   \<and> outcome (consumeUint64 (Tokenizer [''-1''])) = Inr (- 1)
   \<and> outcome (consumeInt32_p0 (Tokenizer [''2147483648''])) = Inr (SNumber (Fin 2147483648))
   \<and> outcome (consumeUint32_p0 (Tokenizer [''4294967296''])) = Inr (SNumber (Fin 4294967296))
   \<and> outcome (consumeUint32_p0 (Tokenizer [''-1''])) = Inr (SNumber (Fin (- 1)))
   \<and> outcome (consumeInt64_p0 (Tokenizer [''9223372036854775808'']))
       = Inr (SBigInt 9223372036854775808)
   \<and> outcome (consumeUint64_p0 (Tokenizer [''-1''])) = Inr (SBigInt (- 1))
   \<and> parse depth (test_parser False) ''int32_field: 2147483648'' (create ''.test.TestMessage'')
       = Inr (Message ''.test.TestMessage'' [(''int32Field'', VScalar (SNumber (Fin 2147483648)))])
   \<and> outcome (consumeInt32 (Tokenizer [''  abc''  ]))
       = Inl (ParseError ''Couldn't parse integer: abc'' (Some 1) (Some 3))\<close>
  by code_simp

subsection \<open>Float tokens\<close>

text \<open>
  C3. In \<^verbatim>\<open>parser.ts\<close> the tokens \<^verbatim>\<open>inf\<close>, \<^verbatim>\<open>infinity\<close>, \<^verbatim>\<open>-inf\<close> and \<^verbatim>\<open>-infinity\<close>
  give NaN; in \<^verbatim>\<open>part_000\<close> they give the infinities, in any case of letters.
  A trailing \<^verbatim>\<open>f\<close> or \<^verbatim>\<open>F\<close> does not change the number in either revision.
\<close>

theorem float_special_values_not_mapped:
  \<open>outcome (consumeFloat (Tokenizer [''inf''])) = Inr NaN
   \<and> outcome (consumeFloat (Tokenizer [''infinity''])) = Inr NaN
   \<and> outcome (consumeFloat (Tokenizer [''-inf''])) = Inr NaN
   \<and> outcome (consumeFloat (Tokenizer [''-infinity''])) = Inr NaN
   \<and> outcome (consumeFloat (Tokenizer [''nan''])) = Inr NaN
   \<and> outcome (consumeFloat (Tokenizer [''3.14f''])) = Inr (Fin (157 / 50))
   \<and> outcome (consumeFloat (Tokenizer [''3.14F''])) = Inr (Fin (157 / 50))
   \<and> outcome (consumeFloat_p0 (Tokenizer [''inf''])) = Inr PosInfinity
   \<and> outcome (consumeFloat_p0 (Tokenizer [''Infinity''])) = Inr PosInfinity
   \<and> outcome (consumeFloat_p0 (Tokenizer [''-inf''])) = Inr NegInfinity
   \<and> outcome (consumeFloat_p0 (Tokenizer [''-INFINITY''])) = Inr NegInfinity
   \<and> outcome (consumeFloat_p0 (Tokenizer [''NaN''])) = Inr NaN
   \<and> outcome (consumeFloat_p0 (Tokenizer [''3.14f''])) = Inr (Fin (157 / 50))
   \<and> outcome (consumeFloat_p0 (Tokenizer [''3.14F''])) = Inr (Fin (157 / 50))\<close>
  by code_simp



















subsection \<open>String literals\<close>

text \<open>
  C4. In \<^verbatim>\<open>parser.ts\<close>, \<^verbatim>\<open>consumeByteString\<close> reads one quoted literal: on
  \<^verbatim>\<open>"a" "b"\<close> it returns the one octet of \<^verbatim>\<open>"a"\<close> and leaves \<^verbatim>\<open>"b"\<close> as the
  current token, on which the parser then fails. \<^verbatim>\<open>consumeString\<close> joins the
  adjacent literals, in either quote style, and so does \<^verbatim>\<open>consumeByteString\<close>
  of \<^verbatim>\<open>part_000\<close>.
\<close>

theorem adjacent_byte_literals_not_joined:
  \<open>outcome (consumeByteString (Tokenizer [''"a" "b"''])) = Inr [97]
   \<and> token (snd (projr (consumeByteString (Tokenizer [''"a" "b"'']))))  = ''"b"''
   \<and> outcome (consumeByteString (Tokenizer [''"ab"''])) = Inr [97, 98]
   \<and> parse depth (test_parser False) ''bytes_field: "a" "b"'' (create ''.test.TestMessage'')
       = Inl (ParseError ''Expected identifier or number, got "b".'' (Some 1) (Some 18))
   \<and> outcome (consumeString (Tokenizer [''"a" "b"''])) = Inr [97, 98]
   \<and> outcome (consumeString (Tokenizer [''"a" '' @ [CHR 0x27] @ ''b'' @ [CHR 0x27]])) = Inr [97, 98]
   \<and> outcome (consumeString (Tokenizer [''"ab"''])) = Inr [97, 98]
   \<and> outcome (consumeByteString_p0 (Tokenizer [''"a" "b"''])) = Inr [97, 98]
   \<and> outcome (consumeByteString_p0 (Tokenizer [''"ab"''])) = Inr [97, 98]
   \<and> outcome (consumeString_p0 (Tokenizer [''"a" "b"''])) = Inr [97, 98]
   \<and> parse_p0 depth (test_parser False) ''bytes_field: "a" "b"'' (create ''.test.TestMessage'')
       = Inr (Message ''.test.TestMessage'' [(''bytesField'', VScalar (SBytes [97, 98]))])\<close>
  by code_simp

text \<open>
  C5. In \<^verbatim>\<open>parser.ts\<close> a one-character escape is followed by the escape character
  itself: \<^verbatim>\<open>\n\<close> decodes to a line feed and an \<^verbatim>\<open>n\<close>. In \<^verbatim>\<open>part_000\<close> the
  one-character escapes decode to the tabulated values, and in both revisions
  an escape that is not in the table decodes to the character twice. The octal
  and hexadecimal examples of the specification hold in both.
\<close>

theorem escapes_decoded_twice:
  \<open>cUnescape (bs @ ''n'') = Inr [10, 110]
   \<and> cUnescape (bs @ ''t'') = Inr [9, 116]
   \<and> cUnescape (bs @ ''a'') = Inr [7, 97]
   \<and> cUnescape (bs @ ''"'') = Inr [34, 34]
   \<and> cUnescape (bs @ ''q'') = Inr [113, 113]
   \<and> cUnescape (bs @ ''1234'') = Inr [83, 52]
   \<and> cUnescape (bs @ ''x213'') = Inr [33, 51]
   \<and> cUnescape (bs @ ''xFHello'') = Inr (15 # units ''Hello'')
   \<and> cUnescape (bs @ ''0'') = Inr [0]
   \<and> cUnescape (bs @ ''0z'') = Inr [0, 122]
   \<and> parse depth (test_parser False) (''string_field: "'' @ bs @ ''n"'') (create ''.test.TestMessage'')
       = Inr (Message ''.test.TestMessage'' [(''stringField'', VScalar (SString [10, 110]))])
   \<and> map (\<lambda>c. cUnescape_p0 (bs @ [c])) (''abfnrtv?'' @ bs @ [CHR 0x27, CHR 0x22])
       = map (\<lambda>u. Inr [u]) [7, 8, 12, 10, 13, 9, 11, 63, 92, 39, 34]
   \<and> cUnescape_p0 (bs @ ''q'') = Inr [113, 113]
   \<and> cUnescape_p0 (bs @ ''1234'') = Inr [83, 52]
   \<and> cUnescape_p0 (bs @ ''x213'') = Inr [33, 51]
   \<and> cUnescape_p0 (bs @ ''xFHello'') = Inr (15 # units ''Hello'')
   \<and> cUnescape_p0 (bs @ ''0'') = Inr [0]
   \<and> cUnescape_p0 (bs @ ''0z'') = Inr [0, 122]
   \<and> cUnescape_p0 (bs @ ''u20AC'') = Inr [8364]
   \<and> cUnescape_p0 (bs @ ''U0001F600'') = Inr [55357, 56832]\<close>
  by code_simp

subsection \<open>Unknown fields and lists\<close>

text \<open>
  C6. With \<^verbatim>\<open>allowUnknownField\<close>, \<^verbatim>\<open>parser.ts\<close> fails on an unknown field whose
  value is a quoted string: \<^verbatim>\<open>skipField\<close> asks for an identifier or a number
  after the colon. \<^verbatim>\<open>part_000\<close> skips the field and parses the next one.
\<close>

theorem unknown_string_field_not_skipped:
  \<open>parse depth (test_parser True) (''unknown_field: "x"'' @ [CHR 0x0A] @ ''string_field: "y"'')
       (create ''.test.TestMessage'')
     = Inl (ParseError ''Expected identifier or number, got "x".'' (Some 1) (Some 16))
   \<and> parse_p0 depth (test_parser True) (''unknown_field: "x"'' @ [CHR 0x0A] @ ''string_field: "y"'')
       (create ''.test.TestMessage'')
     = Inr (Message ''.test.TestMessage'' [(''stringField'', VScalar (SString (units ''y'')))])\<close>
  by code_simp

text \<open>
  C7. \<^verbatim>\<open>parser.ts\<close> rejects the list form of a repeated enum field, and takes the
  values one field at a time; \<^verbatim>\<open>part_000\<close> takes the list and appends its values
  in order.
\<close>

theorem repeated_enum_list_rejected:
  \<open>parse depth (test_parser False) ''repeated_enum: [ENUM_VALUE_ONE, ENUM_VALUE_TWO]''
       (create ''.test.TestMessage'')
     = Inl (ParseError ''Expected identifier or number, got [.'' (Some 1) (Some 16))
   \<and> parse depth (test_parser False) ''repeated_enum: ENUM_VALUE_ONE repeated_enum: ENUM_VALUE_TWO''
       (create ''.test.TestMessage'')
     = Inr (Message ''.test.TestMessage''
              [(''repeatedEnum'', VArray [VScalar (SNumber (Fin 1)), VScalar (SNumber (Fin 2))])])
   \<and> parse_p0 depth (test_parser False) ''repeated_enum: [ENUM_VALUE_ONE, ENUM_VALUE_TWO]''
       (create ''.test.TestMessage'')
     = Inr (Message ''.test.TestMessage''
              [(''repeatedEnum'', VArray [VScalar (SNumber (Fin 1)), VScalar (SNumber (Fin 2))])])\<close>
  by code_simp

subsection \<open>Map fields\<close>

lemma map_of_put: "map_of (put k v ps) = (map_of ps)(k \<mapsto> v)"
  by (induction ps) auto

lemma get_prop_set_prop:
  "get_prop (set_prop m k v) k' = (if k' = k then Some v else get_prop m k')"
  by (cases m) (simp add: get_prop_def set_prop_def map_of_put)

lemma truthy_object: "truthy (Some (VObject kvs))"
  by (simp add: truthy_def)

lemma assign_key_stores:
  assumes "map_of kvs ks = None \<longrightarrow> ks \<noteq> proto_key"
  shows "assign_key kvs ks v = Inr (put ks v kvs)"
  using assms by (auto simp: assign_key_def)

lemma map_insert_object:
  assumes "key_string key = Some ks"
    and "get_prop m name = Some (VObject kvs)"
    and "map_of kvs ks = None \<longrightarrow> ks \<noteq> proto_key"
  shows "map_insert m name key v = Inr (set_prop m name (VObject (put ks v kvs)))"
  using assms truthy_object [of kvs] assign_key_stores [OF assms(3), of v]
  by (simp add: map_insert_def)

lemma map_entry_set_prop:
  "map_entry (set_prop m name (VObject (put ks v kvs))) name k
     = (if k = ks then Some v else map_of kvs k)"
  by (simp add: map_entry_def get_prop_set_prop map_of_put)

text \<open>
  An entry under the key \<^verbatim>\<open>__proto__\<close> is not stored: the map object stays as it
  was, in both revisions.
\<close>

lemma proto_key_entry_not_stored:
  \<open>parse depth (test_parser False) ''string_int_map: { key: "__proto__" value: 1 }''
       map_example_message
     = Inr map_example_message
   \<and> parse_p0 depth (test_parser False) ''string_int_map: { key: "__proto__" value: 1 }''
       map_example_message
     = Inr map_example_message
   \<and> parse depth (test_parser False) ''string_int_map: { key: "__proto__" value: 1 }''
       (create ''.test.TestMessage'')
     = Inr (Message ''.test.TestMessage'' [(''stringIntMap'', VObject [])])\<close>
  by code_simp

text \<open>
  C8. Take a map field whose property holds a map object, and the text of an
  entry from which the loop of \<^verbatim>\<open>mergeMapField\<close> (\<^verbatim>\<open>mergeMapFieldEntry\<close> in
  \<^verbatim>\<open>part_000\<close>) reads a key and a value. Then the function returns, and afterwards
  the map holds the parsed value under the string form of the parsed key,
  whatever it held there before; every other key holds what it held, and no
  other property of the message has changed. (The one key that cannot be
  created by assignment, \<^verbatim>\<open>__proto__\<close>, is replaced like any other when the map
  has it.) Starting from an empty message, the entries \<^verbatim>\<open>k1\<close> to 1 and \<^verbatim>\<open>k2\<close> to
  2 give a map with these two entries, and a further entry \<^verbatim>\<open>k1\<close> to 9 leaves
  \<^verbatim>\<open>k2\<close> to 2 and \<^verbatim>\<open>k1\<close> to 9, in both revisions.
\<close>

theorem map_insertion_replaces:
  \<open>(open_delimiter (snd (tryConsume '':'' t)) = Inr (endToken, t2)
      \<and> tryConsume endToken t2 = (False, t3)
      \<and> mergeMapField_entries n p t3 fld endToken SUndefined (VScalar SUndefined)
          = Inr ((key, val), t')
      \<and> key_string key = Some ks
      \<and> get_prop message (f_name fld) = Some (VObject kvs)
      \<and> (map_of kvs ks = None \<longrightarrow> ks \<noteq> proto_key)
    \<longrightarrow> (\<exists>message'.
          mergeMapField n p t message fld = Inr (message', t')
          \<and> map_entry message' (f_name fld) ks = Some val
          \<and> (\<forall>k. k \<noteq> ks \<longrightarrow> map_entry message' (f_name fld) k = map_of kvs k)
          \<and> (\<forall>x. x \<noteq> f_name fld \<longrightarrow> get_prop message' x = get_prop message x)))
   \<and> (open_delimiter u = Inr (endToken, u2)
      \<and> tryConsume endToken u2 = (False, u3)
      \<and> mergeMapFieldEntry_loop merge n n p u3 fld endToken SUndefined (VScalar SUndefined)
          = Inr ((key, val), u')
      \<and> key_string key = Some ks
      \<and> get_prop message (f_name fld) = Some (VObject kvs)
      \<and> (map_of kvs ks = None \<longrightarrow> ks \<noteq> proto_key)
    \<longrightarrow> (\<exists>message'.
          mergeMapFieldEntry_p0 merge n p u message fld = Inr (message', u')
          \<and> map_entry message' (f_name fld) ks = Some val
          \<and> (\<forall>k. k \<noteq> ks \<longrightarrow> map_entry message' (f_name fld) k = map_of kvs k)
          \<and> (\<forall>x. x \<noteq> f_name fld \<longrightarrow> get_prop message' x = get_prop message x)))
   \<and> parse depth (test_parser False)
        ''string_int_map: { key: "k1" value: 1 } string_int_map: { key: "k2" value: 2 }''
        (create ''.test.TestMessage'')
      = Inr map_example_message
   \<and> parse depth (test_parser False) ''string_int_map: { key:"k1" value: 9 }'' map_example_message
      = Inr map_example_result
   \<and> parse_p0 depth (test_parser False)
        ''string_int_map: { key: "k1" value: 1 } string_int_map: { key: "k2" value: 2 }''
        (create ''.test.TestMessage'')
      = Inr map_example_message
   \<and> parse_p0 depth (test_parser False) ''string_int_map: { key:"k1" value: 9 }''
        map_example_message
      = Inr map_example_result\<close>
proof -
  let ?stored = "set_prop message (f_name fld) (VObject (put ks val kvs))"
  have stored:
    "map_entry ?stored (f_name fld) ks = Some val
     \<and> (\<forall>k. k \<noteq> ks \<longrightarrow> map_entry ?stored (f_name fld) k = map_of kvs k)
     \<and> (\<forall>x. x \<noteq> f_name fld \<longrightarrow> get_prop ?stored x = get_prop message x)"
    by (simp add: map_entry_set_prop get_prop_set_prop)
  have a: "\<exists>message'.
          mergeMapField n p t message fld = Inr (message', t')
          \<and> map_entry message' (f_name fld) ks = Some val
          \<and> (\<forall>k. k \<noteq> ks \<longrightarrow> map_entry message' (f_name fld) k = map_of kvs k)
          \<and> (\<forall>x. x \<noteq> f_name fld \<longrightarrow> get_prop message' x = get_prop message x)"
    if o: "open_delimiter (snd (tryConsume '':'' t)) = Inr (endToken, t2)"
      and e: "tryConsume endToken t2 = (False, t3)"
      and l: "mergeMapField_entries n p t3 fld endToken SUndefined (VScalar SUndefined)
          = Inr ((key, val), t')"
      and k: "key_string key = Some ks"
      and g: "get_prop message (f_name fld) = Some (VObject kvs)"
      and q: "map_of kvs ks = None \<longrightarrow> ks \<noteq> proto_key"
  proof -
    have "mergeMapField n p t message fld = Inr (?stored, t')"
      using o e l map_insert_object [OF k g q, of val] by (simp add: mergeMapField_def)
    with stored show ?thesis by blast
  qed
  have b: "\<exists>message'.
          mergeMapFieldEntry_p0 merge n p u message fld = Inr (message', u')
          \<and> map_entry message' (f_name fld) ks = Some val
          \<and> (\<forall>k. k \<noteq> ks \<longrightarrow> map_entry message' (f_name fld) k = map_of kvs k)
          \<and> (\<forall>x. x \<noteq> f_name fld \<longrightarrow> get_prop message' x = get_prop message x)"
    if o: "open_delimiter u = Inr (endToken, u2)"
      and e: "tryConsume endToken u2 = (False, u3)"
      and l: "mergeMapFieldEntry_loop merge n n p u3 fld endToken SUndefined (VScalar SUndefined)
          = Inr ((key, val), u')"
      and k: "key_string key = Some ks"
      and g: "get_prop message (f_name fld) = Some (VObject kvs)"
      and q: "map_of kvs ks = None \<longrightarrow> ks \<noteq> proto_key"
  proof -
    have "mergeMapFieldEntry_p0 merge n p u message fld = Inr (?stored, u')"
      using o e l map_insert_object [OF k g q, of val] by (simp add: mergeMapFieldEntry_p0_def)
    with stored show ?thesis by blast
  qed
  have c: \<open>parse depth (test_parser False)
        ''string_int_map: { key: "k1" value: 1 } string_int_map: { key: "k2" value: 2 }''
        (create ''.test.TestMessage'')
      = Inr map_example_message\<close>
    by code_simp
  have d: \<open>parse depth (test_parser False) ''string_int_map: { key:"k1" value: 9 }''
        map_example_message
      = Inr map_example_result\<close>
    by code_simp
  have e: \<open>parse_p0 depth (test_parser False)
        ''string_int_map: { key: "k1" value: 1 } string_int_map: { key: "k2" value: 2 }''
        (create ''.test.TestMessage'')
      = Inr map_example_message\<close>
    by code_simp
  have f: \<open>parse_p0 depth (test_parser False) ''string_int_map: { key:"k1" value: 9 }''
        map_example_message
      = Inr map_example_result\<close>
    by code_simp
  show ?thesis
    by (intro conjI impI; (elim conjE)?; (rule a b c d e f; assumption)?)
qed

text \<open>
  The theorem at the entry \<^verbatim>\<open>{ key: "k1" value: 9 }\<close> and a map that holds \<^verbatim>\<open>k1\<close>
  to 1 and \<^verbatim>\<open>k2\<close> to 2: the value 1 is replaced.
\<close>

theorem map_insertion_replaces_witness:
  \<open>map_entry map_example_message ''stringIntMap'' (units ''k1'') = Some (VScalar (SNumber (Fin 1)))
   \<and> (\<exists>message'.
         mergeMapField depth (test_parser False) map_example_tokenizer map_example_message
             map_example_field
           = Inr (message', map_example_end)
         \<and> map_entry message' ''stringIntMap'' (units ''k1'') = Some (VScalar (SNumber (Fin 9)))
         \<and> map_entry message' ''stringIntMap'' (units ''k2'') = Some (VScalar (SNumber (Fin 2))))
   \<and> (\<exists>message'.
         mergeMapFieldEntry_p0 (mergeField_p0 depth (test_parser False)) depth (test_parser False)
             map_example_tokenizer map_example_message map_example_field
           = Inr (message', map_example_end)
         \<and> map_entry message' ''stringIntMap'' (units ''k1'') = Some (VScalar (SNumber (Fin 9)))
         \<and> map_entry message' ''stringIntMap'' (units ''k2'') = Some (VScalar (SNumber (Fin 2))))\<close>
proof -
  let ?t = map_example_tokenizer
  let ?kvs = "[(units ''k1'', VScalar (SNumber (Fin 1))), (units ''k2'', VScalar (SNumber (Fin 2)))]"
  let ?v = "VScalar (SNumber (Fin 9))"
  have o: "open_delimiter (snd (tryConsume '':'' ?t)) = Inr (''}'', nextToken ?t)"
    and o': "open_delimiter ?t = Inr (''}'', nextToken ?t)"
    and e: "tryConsume ''}'' (nextToken ?t) = (False, nextToken ?t)"
    by code_simp+
  have l: "mergeMapField_entries depth (test_parser False) (nextToken ?t) map_example_field ''}''
             SUndefined (VScalar SUndefined)
           = Inr ((SString (units ''k1''), ?v), map_example_end)"
    by code_simp
  have l': "mergeMapFieldEntry_loop (mergeField_p0 depth (test_parser False)) depth depth
             (test_parser False) (nextToken ?t) map_example_field ''}''
             SUndefined (VScalar SUndefined)
           = Inr ((SString (units ''k1''), ?v), map_example_end)"
    by code_simp
  have k: "key_string (SString (units ''k1'')) = Some (units ''k1'')"
    by (simp add: key_string_def)
  have g: "get_prop map_example_message (f_name map_example_field) = Some (VObject ?kvs)"
    by code_simp
  have q: "map_of ?kvs (units ''k1'') = None \<longrightarrow> units ''k1'' \<noteq> proto_key"
    by code_simp
  have nm: "f_name map_example_field = ''stringIntMap''"
    by code_simp
  have k2: "units ''k2'' \<noteq> units ''k1''"
    and m2: "map_of ?kvs (units ''k2'') = Some (VScalar (SNumber (Fin 2)))"
    and m1: "map_entry map_example_message ''stringIntMap'' (units ''k1'')
        = Some (VScalar (SNumber (Fin 1)))"
    by code_simp+
  note th = map_insertion_replaces [where n = depth and p = "test_parser False"
      and t = ?t and u = ?t and endToken = "''}''" and ?t2.0 = "nextToken ?t"
      and ?u2.0 = "nextToken ?t" and ?t3.0 = "nextToken ?t" and ?u3.0 = "nextToken ?t"
      and fld = map_example_field and key = "SString (units ''k1'')" and val = ?v
      and t' = map_example_end and u' = map_example_end and ks = "units ''k1''"
      and message = map_example_message and kvs = ?kvs
      and merge = "mergeField_p0 depth (test_parser False)"]
  from th o e l k g q nm k2 m2 have 1: "\<exists>message'.
         mergeMapField depth (test_parser False) ?t map_example_message map_example_field
           = Inr (message', map_example_end)
         \<and> map_entry message' ''stringIntMap'' (units ''k1'') = Some ?v
         \<and> map_entry message' ''stringIntMap'' (units ''k2'') = Some (VScalar (SNumber (Fin 2)))"
    by metis
  from th o' e l' k g q nm k2 m2 have 2: "\<exists>message'.
         mergeMapFieldEntry_p0 (mergeField_p0 depth (test_parser False)) depth (test_parser False)
             ?t map_example_message map_example_field
           = Inr (message', map_example_end)
         \<and> map_entry message' ''stringIntMap'' (units ''k1'') = Some ?v
         \<and> map_entry message' ''stringIntMap'' (units ''k2'') = Some (VScalar (SNumber (Fin 2)))"
    by metis
  from m1 1 2 show ?thesis by blast
qed

end
